theory Spec2Isabelle
  imports Complex_Main "HOL-Library.List_Lexorder"
begin

section \<open>Python values used by the Seoul crime pipeline\<close>

text \<open>
  A Python \<open>str\<close> is a sequence of Unicode code points, so it is modelled as a list of
  naturals (one per code point); \<open>len\<close>, slicing, \<open>in\<close> and \<open>replace\<close> then count what
  Python counts. ASCII literals of the source are written with \<open>ustr\<close>; the Korean
  characters the code tests for are named constants.
\<close>

type_synonym ustr = "nat list"

definition ustr :: "string \<Rightarrow> ustr" where
  "ustr s = map of_char s"

definition ch_seo :: nat where \<comment> \<open>U+C11C, the station suffix\<close>
  "ch_seo = 49436"

definition ch_gu :: nat where \<comment> \<open>U+AD6C, the district suffix\<close>
  "ch_gu = 44396"

definition seoul :: ustr where \<comment> \<open>U+C11C U+C6B8, the city qualifier\<close>
  "seoul = [49436, 50872]"

definition is_hangul :: "nat \<Rightarrow> bool" where \<comment> \<open>the regex class from U+AC00 to U+D7A3\<close>
  "is_hangul c = (44032 \<le> c \<and> c \<le> 55203)"

definition endswith :: "ustr \<Rightarrow> ustr \<Rightarrow> bool" where
  "endswith s suf = (length suf \<le> length s \<and> drop (length s - length suf) s = suf)"

definition replace_char :: "nat \<Rightarrow> nat \<Rightarrow> ustr \<Rightarrow> ustr" where
  \<comment> \<open>\<open>s.replace(a, b)\<close> for one-character \<open>a\<close> and \<open>b\<close>: every occurrence is replaced\<close>
  "replace_char a b s = map (\<lambda>c. if c = a then b else c) s"

definition remove_char :: "nat \<Rightarrow> ustr \<Rightarrow> ustr" where
  \<comment> \<open>\<open>s.replace(a, '')\<close> for a one-character \<open>a\<close>\<close>
  "remove_char a s = filter (\<lambda>c. c \<noteq> a) s"

fun is_prefix :: "ustr \<Rightarrow> ustr \<Rightarrow> bool" where
  "is_prefix [] s = True"
| "is_prefix (a # as) [] = False"
| "is_prefix (a # as) (c # cs) = (a = c \<and> is_prefix as cs)"

fun str_in :: "ustr \<Rightarrow> ustr \<Rightarrow> bool" where
  \<comment> \<open>\<open>needle in hay\<close>: contiguous substring\<close>
  "str_in needle [] = (needle = [])"
| "str_in needle (c # cs) = (is_prefix needle (c # cs) \<or> str_in needle cs)"

text \<open>
  The decoded body of an HTTP response is a JSON value. Objects are association lists
  with distinct keys; the keys the code looks up are ASCII.
\<close>

datatype json =
    JNull
  | JBool bool
  | JNum real
  | JStr ustr
  | JList "json list"
  | JObj "(string \<times> json) list"

text \<open>Exceptions are values; a call either returns or raises.\<close>

datatype exn =
    FileNotFoundError
  | ConnectionError \<comment> \<open>requests: no response (a \<open>RequestException\<close>)\<close>
  | HTTPError \<comment> \<open>requests: \<open>raise_for_status\<close> (a \<open>RequestException\<close>)\<close>
  | JSONDecodeError \<comment> \<open>requests: \<open>response.json()\<close> on a body that is not JSON (a \<open>RequestException\<close>)\<close>
  | AccessDenied403 json \<comment> \<open>the \<open>ValueError\<close> of the 403 branch, with the upstream message\<close>
  | ValueError
  | MissingApiKey \<comment> \<open>the \<open>ValueError\<close> of \<open>_retrieve_api_key\<close>\<close>
  | AttributeError
  | TypeError
  | KeyError
  | IndexError

datatype 'a outcome = Returned 'a | Raised exn

definition obind :: "'a outcome \<Rightarrow> ('a \<Rightarrow> 'b outcome) \<Rightarrow> 'b outcome" where
  "obind m f = (case m of Returned x \<Rightarrow> f x | Raised e \<Rightarrow> Raised e)"

definition is_request_exception :: "exn \<Rightarrow> bool" where
  "is_request_exception e = (e = ConnectionError \<or> e = HTTPError \<or> e = JSONDecodeError)"

section \<open>Geocode Resolver: \<open>KakaoMapSingleton.geocode\<close>\<close>

datatype http = NoResponse | Response nat "json option"
  \<comment> \<open>\<open>requests.get\<close> raises, or answers with a status code and a body (\<open>None\<close>: not
      JSON; \<open>response.json()\<close> then raises the \<open>JSONDecodeError\<close> of requests, which
      since version 2.27 is a \<open>RequestException\<close>)\<close>

definition truthy :: "json \<Rightarrow> bool" where
  "truthy j = (case j of JNull \<Rightarrow> False | JBool b \<Rightarrow> b | JNum r \<Rightarrow> r \<noteq> 0
     | JStr s \<Rightarrow> s \<noteq> [] | JList l \<Rightarrow> l \<noteq> [] | JObj kv \<Rightarrow> kv \<noteq> [])"

definition dict_get :: "json \<Rightarrow> string \<Rightarrow> json \<Rightarrow> json outcome" where
  \<comment> \<open>\<open>d.get(k, default)\<close>; only a dict has \<open>get\<close>\<close>
  "dict_get d k dflt = (case d of
      JObj kv \<Rightarrow> Returned (case map_of kv k of Some v \<Rightarrow> v | None \<Rightarrow> dflt)
    | _ \<Rightarrow> Raised AttributeError)"

definition py_len :: "json \<Rightarrow> nat outcome" where
  "py_len j = (case j of JStr s \<Rightarrow> Returned (length s) | JList l \<Rightarrow> Returned (length l)
     | JObj kv \<Rightarrow> Returned (length kv) | _ \<Rightarrow> Raised TypeError)"

definition index0 :: "json \<Rightarrow> json outcome" where
  \<comment> \<open>\<open>x[0]\<close>\<close>
  "index0 j = (case j of
      JList l \<Rightarrow> (case l of [] \<Rightarrow> Raised IndexError | x # _ \<Rightarrow> Returned x)
    | JStr s \<Rightarrow> (case s of [] \<Rightarrow> Raised IndexError | c # _ \<Rightarrow> Returned (JStr [c]))
    | JObj kv \<Rightarrow> Raised KeyError
    | _ \<Rightarrow> Raised TypeError)"

definition py_float :: "(ustr \<Rightarrow> real option) \<Rightarrow> json \<Rightarrow> real outcome" where
  \<comment> \<open>\<open>float(x)\<close>; the parser of numeric text is the parameter \<open>pf\<close>\<close>
  "py_float pf j = (case j of
      JNum r \<Rightarrow> Returned r
    | JBool b \<Rightarrow> Returned (if b then 1 else 0)
    | JStr s \<Rightarrow> (case pf s of Some r \<Rightarrow> Returned r | None \<Rightarrow> Raised ValueError)
    | _ \<Rightarrow> Raised TypeError)"

text \<open>
  An element of the list \<open>geocode\<close> returns is a dict in the Google-Maps shape the
  District Resolver reads: each of the three keys is present or absent.
\<close>

record component =
  types :: "string list" \<comment> \<open>\<open>component.get('types', [])\<close>\<close>
  long_name :: ustr \<comment> \<open>\<open>component.get('long_name', '')\<close>\<close>

record geo_item =
  address_components :: "component list option"
  formatted_address :: "json option"
  geometry :: "(real \<times> real) option" \<comment> \<open>\<open>location.lat\<close>, \<open>location.lng\<close>\<close>

definition item_keys :: "geo_item \<Rightarrow> string list" where
  "item_keys it =
     (case formatted_address it of None \<Rightarrow> [] | Some _ \<Rightarrow> [''formatted_address'']) @
     (case geometry it of None \<Rightarrow> [] | Some _ \<Rightarrow> [''geometry'']) @
     (case address_components it of None \<Rightarrow> [] | Some _ \<Rightarrow> [''address_components''])"

definition geocode_try :: "(ustr \<Rightarrow> real option) \<Rightarrow> http \<Rightarrow> geo_item list outcome" where
  \<comment> \<open>the body of the \<open>try\<close> block\<close>
  "geocode_try pf h = (case h of
      NoResponse \<Rightarrow> Raised ConnectionError
    | Response status_code body \<Rightarrow>
        if status_code = 403 then
          (case body of
             None \<Rightarrow> Raised JSONDecodeError
           | Some j \<Rightarrow> obind (dict_get j ''message'' (JStr (ustr ''Forbidden'')))
               (\<lambda>error_msg. Raised (AccessDenied403 error_msg)))
        else if 400 \<le> status_code \<and> status_code < 600 then Raised HTTPError
        else
          (case body of
             None \<Rightarrow> Raised JSONDecodeError
           | Some result \<Rightarrow>
               obind (dict_get result ''documents'' JNull) (\<lambda>documents.
               if \<not> truthy documents then Returned []
               else obind (py_len documents) (\<lambda>n.
               if \<not> n > 0 then Returned []
               else obind (index0 documents) (\<lambda>doc.
               obind (dict_get doc ''address_name'' (JStr [])) (\<lambda>a1.
               obind (if truthy a1 then Returned a1
                      else dict_get doc ''road_address_name'' (JStr [])) (\<lambda>address_name.
               obind (obind (dict_get doc ''y'' (JNum 0)) (py_float pf)) (\<lambda>lat.
               obind (obind (dict_get doc ''x'' (JNum 0)) (py_float pf)) (\<lambda>lng.
               Returned [\<lparr>address_components = None,
                          formatted_address = Some address_name,
                          geometry = Some (lat, lng)\<rparr>])))))))))"

definition geocode :: "(ustr \<Rightarrow> real option) \<Rightarrow> http \<Rightarrow> geo_item list outcome" where
  \<comment> \<open>the two handlers: a \<open>RequestException\<close> is raised again, any other exception gives \<open>[]\<close>\<close>
  "geocode pf h = (case geocode_try pf h of
      Returned r \<Rightarrow> Returned r
    | Raised e \<Rightarrow> if is_request_exception e then Raised e else Returned [])"

section \<open>District Resolver: \<open>SeoulMethod.station_to_district\<close>\<close>

fun gu_end :: "ustr \<Rightarrow> nat option" where
  \<comment> \<open>the greatest position \<open>j \<ge> 1\<close> inside the leading run of Hangul syllables that holds
      the district suffix: where the greedy \<open>[U+AC00-U+D7A3]+\<close> followed by the suffix ends\<close>
  "gu_end [] = None"
| "gu_end (c # cs) =
     (if \<not> is_hangul c then None
      else case gu_end cs of
             Some j \<Rightarrow> Some (Suc j)
           | None \<Rightarrow> (case cs of [] \<Rightarrow> None | d # _ \<Rightarrow> if d = ch_gu then Some 1 else None))"

fun re_search_gu :: "ustr \<Rightarrow> ustr option" where
  \<comment> \<open>\<open>re.search\<close> of a run of Hangul syllables ending in the district suffix: the leftmost
      start that matches, the longest match there; \<open>group(1)\<close>\<close>
  "re_search_gu [] = None"
| "re_search_gu (c # cs) =
     (case (if is_hangul c then gu_end (c # cs) else None) of
        Some j \<Rightarrow> Some (take (Suc j) (c # cs))
      | None \<Rightarrow> re_search_gu cs)"

fun component_loop :: "component list \<Rightarrow> ustr option" where
  "component_loop [] = None"
| "component_loop (c # cs) =
     (if ''sublocality_level_1'' \<in> set (types c) \<or> ''administrative_area_level_2'' \<in> set (types c)
      then (if str_in [ch_gu] (long_name c) then Some (long_name c)
            else if endswith (long_name c) [ch_gu] then Some (long_name c)
            else component_loop cs)
      else component_loop cs)"

definition basic_rule :: "ustr \<Rightarrow> ustr" where
  \<comment> \<open>the fallback both after a fruitless lookup and in the exception handler\<close>
  "basic_rule station_name =
     (if endswith station_name [ch_seo] then replace_char ch_seo ch_gu station_name
      else station_name)"

definition district_try :: "geo_item list outcome \<Rightarrow> ustr option outcome" where
  \<comment> \<open>the \<open>try\<close> block after the geocode call; \<open>None\<close> when it falls through to the warning\<close>
  "district_try g = obind g (\<lambda>geocode_result.
     case geocode_result of
       [] \<Rightarrow> Returned None
     | it # _ \<Rightarrow>
        (case component_loop (case address_components it of None \<Rightarrow> [] | Some cs \<Rightarrow> cs) of
           Some d \<Rightarrow> Returned (Some d)
         | None \<Rightarrow>
            (case (case formatted_address it of None \<Rightarrow> JStr [] | Some a \<Rightarrow> a) of
               JStr a \<Rightarrow> Returned (re_search_gu a)
             | _ \<Rightarrow> Raised TypeError)))"

definition get_district_from_kakao_maps ::
    "(ustr \<Rightarrow> geo_item list outcome) \<Rightarrow> ustr \<Rightarrow> ustr \<times> ustr list" where
  \<comment> \<open>returns the district and the list of geocode queries it sent\<close>
  "get_district_from_kakao_maps geo station_name =
     (let query = station_name @ [32] @ seoul in
      (case district_try (geo query) of
         Returned (Some d) \<Rightarrow> d
       | Returned None \<Rightarrow> basic_rule station_name
       | Raised e \<Rightarrow> basic_rule station_name,
       [query]))"

definition station_to_district ::
    "ustr list outcome \<Rightarrow> (ustr \<Rightarrow> geo_item list outcome) \<Rightarrow> ustr \<Rightarrow> (ustr \<times> ustr list) outcome" where
  \<comment> \<open>\<open>cctv\<close>: what reading the institution-name column of cctv.csv gives; the result is
      the district and the list of geocode queries sent\<close>
  "station_to_district cctv geo station_name =
     (if endswith station_name [ch_seo] then
        (let district = replace_char ch_seo ch_gu station_name in
         obind cctv (\<lambda>valid_districts.
           if district \<in> set valid_districts then Returned (district, [])
           else Returned (get_district_from_kakao_maps geo station_name)))
      else Returned (get_district_from_kakao_maps geo station_name))"

section \<open>The process-wide resolver object: \<open>KakaoMapSingleton.__new__\<close>\<close>

text \<open>
  The class variables \<open>_instance\<close> and \<open>_env_loaded\<close>, the process environment and the
  objects created so far are the state. An object is named by its position in \<open>heap\<close>;
  an attribute that was never assigned is \<open>None\<close>. \<open>key_reads\<close> counts the executions of
  \<open>_retrieve_api_key\<close>, the only place that reads the two variables.
\<close>

record kakao_object =
  api_key_attr :: "ustr option"
  base_url_attr :: "ustr option"

record process =
  environ :: "string \<Rightarrow> ustr option"
  dotenv_file :: "(string \<times> ustr) list option" \<comment> \<open>the nearest \<open>.env\<close> up the directory tree\<close>
  env_loaded :: bool
  instance_ref :: "nat option"
  heap :: "kakao_object list"
  key_reads :: nat

definition fresh_process :: "(string \<Rightarrow> ustr option) \<Rightarrow> (string \<times> ustr) list option \<Rightarrow> process" where
  "fresh_process env dot = \<lparr>environ = env, dotenv_file = dot, env_loaded = False,
     instance_ref = None, heap = [], key_reads = 0\<rparr>"

fun load_dotenv :: "(string \<times> ustr) list \<Rightarrow> (string \<Rightarrow> ustr option) \<Rightarrow> (string \<Rightarrow> ustr option)" where
  \<comment> \<open>a variable already set is not overridden\<close>
  "load_dotenv [] env = env"
| "load_dotenv ((k, v) # kvs) env =
     load_dotenv kvs (case env k of None \<Rightarrow> env(k := Some v) | Some _ \<Rightarrow> env)"

definition getenv_key :: "(string \<Rightarrow> ustr option) \<Rightarrow> ustr option" where
  \<comment> \<open>\<open>os.getenv("KAKAO_REST_API_KEY") or os.getenv("KAKAO_MAP_API_KEY")\<close>\<close>
  "getenv_key env =
     (case env ''KAKAO_REST_API_KEY'' of
        Some (c # cs) \<Rightarrow> Some (c # cs)
      | _ \<Rightarrow> env ''KAKAO_MAP_API_KEY'')"

definition retrieve_api_key :: "process \<Rightarrow> ustr outcome \<times> process" where
  "retrieve_api_key p =
     (let p1 = (if \<not> env_loaded p
                then (case dotenv_file p of
                        Some kvs \<Rightarrow> p\<lparr>environ := load_dotenv kvs (environ p)\<rparr>
                      | None \<Rightarrow> p)\<lparr>env_loaded := True\<rparr>
                else p);
          p2 = p1\<lparr>key_reads := Suc (key_reads p1)\<rparr>
      in case getenv_key (environ p2) of
           Some (c # cs) \<Rightarrow> (Returned (c # cs), p2)
         | _ \<Rightarrow> (Raised MissingApiKey, p2))"

definition base_url :: ustr where
  "base_url = ustr ''https://dapi.kakao.com/v2/local''"

definition KakaoMapSingleton_new :: "process \<Rightarrow> nat outcome \<times> process" where
  \<comment> \<open>\<open>KakaoMapSingleton()\<close>: the object it returns, by name\<close>
  "KakaoMapSingleton_new p =
     (case instance_ref p of
        Some obj \<Rightarrow> (Returned obj, p)
      | None \<Rightarrow>
          (let obj = length (heap p);
               p1 = p\<lparr>heap := heap p @ [\<lparr>api_key_attr = None, base_url_attr = None\<rparr>],
                       instance_ref := Some obj\<rparr>
           in case retrieve_api_key p1 of
                (Raised e, p2) \<Rightarrow> (Raised e, p2)
              | (Returned k, p2) \<Rightarrow>
                  (Returned obj,
                   p2\<lparr>heap := (heap p2)[obj := \<lparr>api_key_attr = Some k,
                                                   base_url_attr = Some base_url\<rparr>]\<rparr>)))"

definition get_api_key :: "process \<Rightarrow> nat \<Rightarrow> ustr outcome" where
  "get_api_key p obj =
     (case api_key_attr (heap p ! obj) of Some k \<Rightarrow> Returned k | None \<Rightarrow> Raised AttributeError)"

definition geocode_method :: "process \<Rightarrow> nat \<Rightarrow> (ustr \<Rightarrow> real option) \<Rightarrow> http \<Rightarrow> geo_item list outcome" where
  \<comment> \<open>\<open>obj.geocode(address)\<close>: the URL and the header are built from the two attributes
      before the \<open>try\<close> block\<close>
  "geocode_method p obj pf h =
     (case base_url_attr (heap p ! obj) of
        None \<Rightarrow> Raised AttributeError
      | Some _ \<Rightarrow>
         (case api_key_attr (heap p ! obj) of
            None \<Rightarrow> Raised AttributeError
          | Some _ \<Rightarrow> geocode pf h))"

definition SeoulMethod_init :: "process \<Rightarrow> nat outcome \<times> process" where
  \<comment> \<open>\<open>SeoulMethod.__init__\<close>: \<open>self.kakao_map = KakaoMapSingleton()\<close>\<close>
  "SeoulMethod_init p = KakaoMapSingleton_new p"

definition SeoulService_init :: "process \<Rightarrow> nat outcome \<times> process" where
  \<comment> \<open>\<open>SeoulService.__init__\<close>: \<open>self.method = SeoulMethod()\<close>\<close>
  "SeoulService_init p = SeoulMethod_init p"

definition import_seoul_router :: "process \<Rightarrow> nat outcome \<times> process" where
  \<comment> \<open>the module-level \<open>seoul_service = SeoulService()\<close>, run when the application imports
      its routers at start\<close>
  "import_seoul_router p = SeoulService_init p"

text \<open>
  Sample data of the specification's scenario: the keyword search answers the query for
  the Bangbae station with the address "Seoul-teukbyeolsi Gangnam-gu Bangbae-dong".
\<close>

definition bangbae_addr :: ustr where
  "bangbae_addr = [49436, 50872, 53945, 48324, 49884, 32, 44053, 45224, 44396, 32,
                   48169, 48176, 46041]"

definition bangbae_http :: http where
  "bangbae_http = Response 200 (Some (JObj [(''documents'', JList [JObj
     [(''address_name'', JStr bangbae_addr), (''x'', JNum 127), (''y'', JNum 37)]])]))"

section \<open>Numbers and table cells\<close>

text \<open>
  A float is a finite number, an infinity or NaN; pandas uses NaN as its missing value.
  What IEEE 754 does with zero divisors, infinities and NaN is written out, so that a
  guard against a zero divisor is visible in the model. What the platform returns for
  two finite operands (the quotient and the product of doubles, rounded, an infinity on
  overflow) and what \<open>Series.round\<close> returns for a finite double is not computed here:
  these three operations are parameters of the model, and no theorem depends on the
  digits they produce.
\<close>

datatype fl = Fin real | PInf | NInf | NaN

record dbl_ops =
  dbl_div :: "real \<Rightarrow> real \<Rightarrow> fl" \<comment> \<open>the quotient of two finite doubles, the divisor not zero\<close>
  dbl_mul :: "real \<Rightarrow> real \<Rightarrow> fl" \<comment> \<open>the product of two finite doubles\<close>
  dbl_round :: "nat \<Rightarrow> real \<Rightarrow> fl" \<comment> \<open>a finite double rounded to the given number of decimals\<close>

fun fl_lt :: "fl \<Rightarrow> fl \<Rightarrow> bool" where
  "fl_lt NaN y = False"
| "fl_lt x NaN = False"
| "fl_lt (Fin a) (Fin b) = (a < b)"
| "fl_lt (Fin a) PInf = True"
| "fl_lt (Fin a) NInf = False"
| "fl_lt PInf y = False"
| "fl_lt NInf (Fin b) = True"
| "fl_lt NInf PInf = True"
| "fl_lt NInf NInf = False"

definition fl_gt :: "fl \<Rightarrow> fl \<Rightarrow> bool" where
  "fl_gt x y = fl_lt y x"

definition fl_ne :: "fl \<Rightarrow> fl \<Rightarrow> bool" where
  \<comment> \<open>\<open>x != y\<close>: NaN differs from everything\<close>
  "fl_ne x y = (x = NaN \<or> y = NaN \<or> x \<noteq> y)"

definition notna :: "fl \<Rightarrow> bool" where
  "notna x = (x \<noteq> NaN)"

definition fl_inf :: "bool \<Rightarrow> fl" where
  \<comment> \<open>the infinity of the given sign (\<open>True\<close>: positive)\<close>
  "fl_inf pos = (if pos then PInf else NInf)"

fun fl_div :: "dbl_ops \<Rightarrow> fl \<Rightarrow> fl \<Rightarrow> fl" where
  "fl_div A NaN y = NaN"
| "fl_div A x NaN = NaN"
| "fl_div A (Fin a) (Fin b) =
     (if b \<noteq> 0 then dbl_div A a b
      else if a = 0 then NaN else fl_inf (0 < a))"
| "fl_div A (Fin a) PInf = Fin 0"
| "fl_div A (Fin a) NInf = Fin 0"
| "fl_div A PInf (Fin b) = fl_inf (0 \<le> b)"
| "fl_div A NInf (Fin b) = fl_inf (b < 0)"
| "fl_div A PInf PInf = NaN"
| "fl_div A PInf NInf = NaN"
| "fl_div A NInf PInf = NaN"
| "fl_div A NInf NInf = NaN"

fun fl_mul :: "dbl_ops \<Rightarrow> fl \<Rightarrow> fl \<Rightarrow> fl" where
  "fl_mul A NaN y = NaN"
| "fl_mul A x NaN = NaN"
| "fl_mul A (Fin a) (Fin b) = dbl_mul A a b"
| "fl_mul A (Fin a) PInf = (if a = 0 then NaN else fl_inf (0 < a))"
| "fl_mul A (Fin a) NInf = (if a = 0 then NaN else fl_inf (a < 0))"
| "fl_mul A PInf (Fin b) = (if b = 0 then NaN else fl_inf (0 < b))"
| "fl_mul A NInf (Fin b) = (if b = 0 then NaN else fl_inf (b < 0))"
| "fl_mul A PInf PInf = PInf"
| "fl_mul A PInf NInf = NInf"
| "fl_mul A NInf PInf = NInf"
| "fl_mul A NInf NInf = PInf"

definition fl_round :: "dbl_ops \<Rightarrow> nat \<Rightarrow> fl \<Rightarrow> fl" where
  \<comment> \<open>\<open>Series.round(d)\<close> on one value: an infinity and NaN stay as they are\<close>
  "fl_round A d x = (case x of Fin a \<Rightarrow> dbl_round A d a | _ \<Rightarrow> x)"


text \<open>
  One instance of the operations, for evaluating examples: the results without rounding
  error, and rounding to decimals with a tie to the even digit. The examples below use
  values at which doubles give the same results.
\<close>

definition rint :: "real \<Rightarrow> int" where
  \<comment> \<open>round to the nearest integer, a tie to the even one\<close>
  "rint x = (let f = \<lfloor>x\<rfloor>; d = x - of_int f
             in if d < 1 / 2 then f else if 1 / 2 < d then f + 1
                else if even f then f else f + 1)"

definition round_to :: "nat \<Rightarrow> real \<Rightarrow> real" where
  "round_to d x = of_int (rint (x * 10 ^ d)) / 10 ^ d"

definition exact_ops :: dbl_ops where
  "exact_ops = \<lparr>dbl_div = (\<lambda>a b. Fin (a / b)), dbl_mul = (\<lambda>a b. Fin (a * b)),
                 dbl_round = (\<lambda>d a. Fin (round_to d a))\<rparr>"

text \<open>
  A cell of a table read from CSV or a spreadsheet: an integer, a float (NaN when the
  cell is missing) or text.
\<close>

datatype cell = IntCell int | FloatCell fl | TextCell ustr

definition isna :: "cell \<Rightarrow> bool" where
  "isna c = (c = FloatCell NaN)"

definition is_space :: "nat \<Rightarrow> bool" where
  \<comment> \<open>the characters \<open>str.strip()\<close> removes\<close>
  "is_space c = ((9 \<le> c \<and> c \<le> 13) \<or> (28 \<le> c \<and> c \<le> 32) \<or> c = 133 \<or> c = 160
     \<or> c = 5760 \<or> (8192 \<le> c \<and> c \<le> 8202) \<or> c = 8232 \<or> c = 8233 \<or> c = 8239
     \<or> c = 8287 \<or> c = 12288)"

definition strip_by :: "(nat \<Rightarrow> bool) \<Rightarrow> ustr \<Rightarrow> ustr" where
  "strip_by P s = rev (dropWhile P (rev (dropWhile P s)))"

definition strip :: "ustr \<Rightarrow> ustr" where
  "strip s = strip_by is_space s"

definition strip_char :: "nat \<Rightarrow> ustr \<Rightarrow> ustr" where
  \<comment> \<open>\<open>s.strip(c)\<close> for a one-character \<open>c\<close>\<close>
  "strip_char c s = strip_by (\<lambda>x. x = c) s"

definition str_to_float :: "(ustr \<Rightarrow> fl option) \<Rightarrow> cell \<Rightarrow> fl" where
  \<comment> \<open>the local helper of \<open>preprocess\<close>, \<open>generate_heatmap\<close> and \<open>generate_crime_rate_map\<close>;
      \<open>pf\<close> is \<open>float\<close> on text (\<open>None\<close>: \<open>ValueError\<close>). The text of a number converts back
      to that number.\<close>
  "str_to_float pf val =
     (if isna val then Fin 0
      else case val of
             IntCell n \<Rightarrow> Fin (of_int n)
           | FloatCell x \<Rightarrow> x
           | TextCell s \<Rightarrow>
               (case pf (strip (remove_char 44 s)) of Some x \<Rightarrow> x | None \<Rightarrow> Fin 0))"

section \<open>Table Reconciler: names, mapping and merge in \<open>SeoulService.preprocess\<close>\<close>

definition normalize_gu_name :: "ustr option \<Rightarrow> ustr" where
  \<comment> \<open>\<open>None\<close>: the cell is missing\<close>
  "normalize_gu_name name =
     (case name of
        None \<Rightarrow> []
      | Some s \<Rightarrow> strip (strip_char 39 (strip_char 34 (strip s))))"

record pop_row =
  pop_gu :: ustr \<comment> \<open>the district column\<close>
  pop_value :: fl \<comment> \<open>the population column\<close>

record crime_row =
  station :: ustr \<comment> \<open>the station-name column\<close>
  counts :: "cell list" \<comment> \<open>the occurrence and clearance columns, in the order of the table\<close>
  gu :: ustr \<comment> \<open>the district column\<close>

record merged_row =
  crime :: crime_row
  population :: fl

definition pop_clean_of :: "(ustr \<Rightarrow> fl option) \<Rightarrow> (ustr option \<times> cell) list \<Rightarrow> pop_row list" where
  \<comment> \<open>the two kept spreadsheet columns, after \<open>normalize_gu_name\<close> and \<open>str_to_float\<close>\<close>
  "pop_clean_of pf raw =
     map (\<lambda>(n, v). \<lparr>pop_gu = normalize_gu_name n, pop_value = str_to_float pf v\<rparr>) raw"

definition normalize_crime :: "crime_row list \<Rightarrow> crime_row list" where
  "normalize_crime df = map (\<lambda>r. r\<lparr>gu := normalize_gu_name (Some (gu r))\<rparr>) df"

fun unique :: "'a list \<Rightarrow> 'a list" where
  \<comment> \<open>\<open>Series.unique()\<close>: first occurrences, in order\<close>
  "unique [] = []"
| "unique (x # xs) = x # unique (filter (\<lambda>y. y \<noteq> x) xs)"

definition jongno :: ustr where \<comment> \<open>U+C885 U+B85C U+AD6C, the district with the corrected population\<close>
  "jongno = [51333, 47196, 44396]"

definition jongno_stem :: ustr where
  "jongno_stem = [51333, 47196]"

definition rename_gu :: "ustr \<Rightarrow> ustr \<Rightarrow> pop_row list \<Rightarrow> pop_row list" where
  "rename_gu old new pop = map (\<lambda>r. if pop_gu r = old then r\<lparr>pop_gu := new\<rparr> else r) pop"

definition jongno_step :: "ustr list \<Rightarrow> pop_row list \<Rightarrow> pop_row list" where
  \<comment> \<open>the special handling of the one district, before the mapping table is built\<close>
  "jongno_step crime_gu_list pop_clean =
     (let pop_gu_list = map pop_gu pop_clean;
          pop1 = (if jongno \<in> set pop_gu_list then pop_clean
                  else case filter (str_in jongno_stem) pop_gu_list of
                         [] \<Rightarrow> pop_clean
                       | v # _ \<Rightarrow> rename_gu v jongno pop_clean)
      in if jongno \<in> set crime_gu_list then
           (case find (\<lambda>r. pop_gu r = jongno) pop1 of
              None \<Rightarrow> pop1 @ [\<lparr>pop_gu = jongno, pop_value = Fin 162820\<rparr>]
            | Some r \<Rightarrow>
                if fl_ne (pop_value r) (Fin 162820)
                then map (\<lambda>r. if pop_gu r = jongno then r\<lparr>pop_value := Fin 162820\<rparr> else r) pop1
                else pop1)
         else pop1)"

definition similar_gu :: "ustr \<Rightarrow> ustr \<Rightarrow> bool" where
  \<comment> \<open>the condition of the list comprehension that collects \<open>similar_gu\<close>\<close>
  "similar_gu crime_gu g =
     (str_in crime_gu g \<or> str_in g crime_gu
      \<or> remove_char ch_gu crime_gu = remove_char ch_gu g)"

definition dict_set :: "('k \<times> 'v) list \<Rightarrow> 'k \<Rightarrow> 'v \<Rightarrow> ('k \<times> 'v) list" where
  \<comment> \<open>\<open>d[k] = v\<close> on a dict kept in insertion order\<close>
  "dict_set d k v =
     (if k \<in> set (map fst d) then map (\<lambda>(k', v'). if k' = k then (k', v) else (k', v')) d
      else d @ [(k, v)])"

definition first_similar :: "ustr \<Rightarrow> ustr list \<Rightarrow> ustr option" where
  \<comment> \<open>\<open>similar_gu[0]\<close> when the comprehension's list is not empty\<close>
  "first_similar crime_gu names =
     (case filter (similar_gu crime_gu) names of [] \<Rightarrow> None | g # _ \<Rightarrow> Some g)"

fun gu_mapping_loop :: "ustr list \<Rightarrow> ustr list \<Rightarrow> (ustr \<times> ustr) list \<Rightarrow> (ustr \<times> ustr) list" where
  \<comment> \<open>the loop over \<open>crime_gu_list\<close>; the dict is the accumulator\<close>
  "gu_mapping_loop [] names m = m"
| "gu_mapping_loop (crime_gu # rest) names m =
     gu_mapping_loop rest names
       (if crime_gu \<noteq> [] \<and> crime_gu \<noteq> jongno \<and> crime_gu \<notin> set names
        then (case first_similar crime_gu names of
                None \<Rightarrow> m
              | Some g \<Rightarrow> dict_set m crime_gu g)
        else m)"

definition reverse_mapping :: "(ustr \<times> ustr) list \<Rightarrow> (ustr \<times> ustr) list" where
  \<comment> \<open>the dict comprehension that swaps keys and values\<close>
  "reverse_mapping m = foldl (\<lambda>r (k, v). dict_set r v k) [] m"

definition remap_pop :: "ustr list \<Rightarrow> pop_row list \<Rightarrow> pop_row list" where
  \<comment> \<open>builds the mapping table and renames the population table with its reverse\<close>
  "remap_pop crime_gu_list pop_clean =
     (let gu_mapping = gu_mapping_loop crime_gu_list (map pop_gu pop_clean) []
      in if gu_mapping \<noteq> [] then
           map (\<lambda>r. r\<lparr>pop_gu := (case map_of (reverse_mapping gu_mapping) (pop_gu r) of
                                     Some k \<Rightarrow> k | None \<Rightarrow> pop_gu r)\<rparr>) pop_clean
         else pop_clean)"

definition merge_left :: "crime_row list \<Rightarrow> pop_row list \<Rightarrow> merged_row list" where
  \<comment> \<open>\<open>pd.merge(crime_df, pop_clean, on=district, how='left')\<close>\<close>
  "merge_left crime_df pop_clean =
     concat (map (\<lambda>c.
        case filter (\<lambda>p. pop_gu p = gu c) pop_clean of
          [] \<Rightarrow> [\<lparr>crime = c, population = NaN\<rparr>]
        | ms \<Rightarrow> map (\<lambda>p. \<lparr>crime = c, population = pop_value p\<rparr>) ms) crime_df)"

definition reconcile :: "crime_row list \<Rightarrow> pop_row list \<Rightarrow> merged_row list" where
  \<comment> \<open>from the normalized tables to \<open>crime_df_with_pop\<close>\<close>
  "reconcile crime_df pop_clean =
     (let crime_gu_list = unique (map gu crime_df)
      in merge_left crime_df (remap_pop crime_gu_list (jongno_step crime_gu_list pop_clean)))"

text \<open>
  Sample tables: a crime row whose district is written U+C885 U+B85C, space, U+AD6C
  (Jongno-gu with an inner space), a population row for U+C885 U+B85C U+AD6C, and a
  crime row for U+B9C8 U+D3EC U+AD6C (Mapo-gu) beside a population row for
  U+AC15 U+B0A8 U+AD6C (Gangnam-gu).
\<close>

definition jongno_spaced :: ustr where
  "jongno_spaced = [51333, 47196, 32, 44396]"

definition spaced_crime :: "crime_row list" where
  "spaced_crime = [\<lparr>station = [51333, 47196, 49436], counts = [], gu = jongno_spaced\<rparr>]"

definition jongno_pop :: "pop_row list" where
  "jongno_pop = [\<lparr>pop_gu = jongno, pop_value = Fin 150000\<rparr>]"

definition gangnam_gu :: ustr where
  "gangnam_gu = [44053, 45224, 44396]"

definition gangnam_pop :: "pop_row list" where
  "gangnam_pop = [\<lparr>pop_gu = gangnam_gu, pop_value = Fin 500000\<rparr>]"

definition mapo_crime :: crime_row where
  "mapo_crime = \<lparr>station = [47560, 54252, 49436], counts = [], gu = [47560, 54252, 44396]\<rparr>"

text \<open>
  Sample tables for the mapping: the crime-table districts U+AC15 U+B0A8 U+AD6C, then
  U+B0A8 U+AD6C, then the first again, and a population table whose second and third
  names both contain each of them; a crime table with those two districts in sorted
  order, and one whose district is empty.
\<close>

definition namgu :: ustr where
  "namgu = [45224, 44396]"

definition seoul_gangnam :: ustr where
  "seoul_gangnam = [49436, 50872, 44053, 45224, 44396]"

definition gangnam_office :: ustr where
  "gangnam_office = [44053, 45224, 44396, 52397]"

definition two_gu :: "ustr list" where
  "two_gu = [gangnam_gu, namgu, gangnam_gu]"

definition three_pop :: "pop_row list" where
  "three_pop = [\<lparr>pop_gu = [47560, 54252, 44396], pop_value = Fin 300000\<rparr>,
                \<lparr>pop_gu = seoul_gangnam, pop_value = Fin 500000\<rparr>,
                \<lparr>pop_gu = gangnam_office, pop_value = Fin 7\<rparr>]"

definition two_crime :: "crime_row list" where
  "two_crime = [\<lparr>station = [44053, 45224, 49436], counts = [], gu = gangnam_gu\<rparr>,
                \<lparr>station = [45224, 49436], counts = [], gu = namgu\<rparr>]"

definition empty_crime :: "crime_row list" where
  "empty_crime = [\<lparr>station = [47560, 54252, 49436], counts = [], gu = []\<rparr>]"

section \<open>Derived columns and the Rate Normalizer in \<open>SeoulService.generate_heatmap\<close>\<close>

text \<open>
  A column is the list of its values in row order. \<open>select mask col\<close> is
  \<open>df.loc[mask, col]\<close>; \<open>loc_assign mask col values\<close> is the assignment
  \<open>df.loc[mask, col] = values\<close>, where \<open>values\<close> holds one value for each selected row.
\<close>

fun select :: "bool list \<Rightarrow> 'a list \<Rightarrow> 'a list" where
  "select (m # ms) (x # xs) = (if m then x # select ms xs else select ms xs)"
| "select [] xs = []"
| "select ms [] = []"

fun loc_assign :: "bool list \<Rightarrow> 'a list \<Rightarrow> 'a list \<Rightarrow> 'a list" where
  "loc_assign (m # ms) (x # xs) vs =
     (if m then (case vs of v # vs' \<Rightarrow> v # loc_assign ms xs vs' | [] \<Rightarrow> x # loc_assign ms xs [])
      else x # loc_assign ms xs vs)"
| "loc_assign [] xs vs = xs"
| "loc_assign ms [] vs = []"

definition occurrence_rate :: "dbl_ops \<Rightarrow> fl list \<Rightarrow> fl list \<Rightarrow> fl list" where
  \<comment> \<open>one pass of the first loop: the occurrence column and the population column give
      the rate per 100,000\<close>
  "occurrence_rate A occur pop =
     (let mask = map (\<lambda>p. fl_gt p (Fin 0) \<and> notna p) pop
      in loc_assign mask (map (\<lambda>_. Fin 0) pop)
           (map (fl_round A 1)
              (map (\<lambda>q. fl_mul A q (Fin 100000))
                 (map2 (fl_div A) (select mask occur) (select mask pop)))))"

definition arrest_rate :: "dbl_ops \<Rightarrow> fl list \<Rightarrow> fl list \<Rightarrow> fl list" where
  \<comment> \<open>one pass of the third loop: the clearance column and the occurrence column give
      the clearance rate in percent\<close>
  "arrest_rate A arrest occur =
     (let mask = map (\<lambda>c. fl_gt c (Fin 0)) occur
      in loc_assign mask (map (\<lambda>_. Fin 0) occur)
           (map (fl_round A 1)
              (map (\<lambda>q. fl_mul A q (Fin 100))
                 (map2 (fl_div A) (select mask arrest) (select mask occur)))))"

definition fl_max :: "fl \<Rightarrow> fl \<Rightarrow> fl" where
  "fl_max a b = (if fl_lt a b then b else a)"

definition column_max :: "fl list \<Rightarrow> fl" where
  \<comment> \<open>\<open>Series.max()\<close>: missing values are skipped; NaN when nothing is left\<close>
  "column_max col = (case filter notna col of [] \<Rightarrow> NaN | y # ys \<Rightarrow> fold fl_max ys y)"

definition clamp_negative :: "fl list \<Rightarrow> fl list" where
  \<comment> \<open>\<open>df.loc[df[col] < 0, col] = 0.0\<close>\<close>
  "clamp_negative col = map (\<lambda>v. if fl_lt v (Fin 0) then Fin 0 else v) col"

definition clamp_above_one :: "fl list \<Rightarrow> fl list" where
  \<comment> \<open>\<open>df.loc[df[col] > 1, col] = 1.0\<close>\<close>
  "clamp_above_one col = map (\<lambda>v. if fl_gt v (Fin 1) then Fin 1 else v) col"

definition normalize_column :: "dbl_ops \<Rightarrow> fl list \<Rightarrow> fl list" where
  \<comment> \<open>one pass of the normalization loop (the same in \<open>generate_crime_rate_map\<close>)\<close>
  "normalize_column A col =
     (let c1 = clamp_negative col;
          max_value = column_max c1
      in if fl_gt max_value (Fin 0)
         then clamp_above_one (clamp_negative (map (\<lambda>v. fl_round A 4 (fl_div A v max_value)) c1))
         else map (\<lambda>_. Fin 0) c1)"

text \<open>
  The table \<open>generate_heatmap\<close> works on: the population column and, for each of the
  five crime categories, an occurrence and a clearance column, all of one length.
\<close>

record heat_table =
  h_pop :: "cell list"
  h_occur :: "cell list list"
  h_arrest :: "cell list list"

definition heat_table_ok :: "heat_table \<Rightarrow> bool" where
  "heat_table_ok t =
     (length (h_occur t) = 5 \<and> length (h_arrest t) = 5
      \<and> list_all (\<lambda>c. length c = length (h_pop t)) (h_occur t)
      \<and> list_all (\<lambda>c. length c = length (h_pop t)) (h_arrest t))"

definition rate_df :: "dbl_ops \<Rightarrow> (ustr \<Rightarrow> fl option) \<Rightarrow> heat_table \<Rightarrow> fl list list" where
  "rate_df A pf t =
     map (\<lambda>occur. occurrence_rate A (map (str_to_float pf) occur) (map (str_to_float pf) (h_pop t)))
       (h_occur t)"


definition arrest_df :: "dbl_ops \<Rightarrow> (ustr \<Rightarrow> fl option) \<Rightarrow> heat_table \<Rightarrow> fl list list" where
  "arrest_df A pf t =
     map2 (\<lambda>arrest occur.
             arrest_rate A (map (str_to_float pf) arrest) (map (str_to_float pf) occur))
       (h_arrest t) (h_occur t)"

text \<open>
  A sample table of two districts: the first with population 200,000, the second with
  none; every category has 3 and 5 occurrences and 1 and 5 clearances.
\<close>

definition sample_heat :: heat_table where
  "sample_heat = \<lparr>h_pop = [IntCell 200000, FloatCell NaN],
     h_occur = replicate 5 [IntCell 3, IntCell 5],
     h_arrest = replicate 5 [IntCell 1, IntCell 5]\<rparr>"


section \<open>Duplicate-district aggregation: \<open>SeoulService._merge_duplicate_gu\<close>\<close>

text \<open>
  \<open>int\<close> on text: whitespace around the number is ignored, a sign may come first, and
  the digits may be separated by single underscores. A digit is any decimal digit of
  Unicode: the digits of a script are ten consecutive code points, and
  \<open>nd_zeros\<close> lists the code point of the zero of each script (Unicode 14). The
  whitespace that \<open>int\<close> ignores is that of \<open>str.strip()\<close> without the four
  separator controls U+001C to U+001F. The interpreter's optional limit on the number
  of digits is not modelled.
\<close>

definition nd_zeros :: "nat list" where
  "nd_zeros =
    [48, 1632, 1776, 1984, 2406, 2534, 2662, 2790, 2918, 3046, 3174, 3302, 3430, 3558,
     3664, 3792, 3872, 4160, 4240, 6112, 6160, 6470, 6608, 6784, 6800, 6992, 7088, 7232,
     7248, 42528, 43216, 43264, 43472, 43504, 43600, 44016, 65296, 66720, 68912, 69734,
     69872, 69942, 70096, 70384, 70736, 70864, 71248, 71360, 71472, 71904, 72016, 72784,
     73040, 73120, 92768, 92864, 93008, 120782, 120792, 120802, 120812, 120822, 123200,
     123632, 125264, 130032]"

definition digit_val :: "nat \<Rightarrow> nat option" where
  "digit_val c =
     (case find (\<lambda>z. z \<le> c \<and> c < z + 10) nd_zeros of
        None \<Rightarrow> None
      | Some z \<Rightarrow> Some (c - z))"

definition int_space :: "nat \<Rightarrow> bool" where
  "int_space c = (is_space c \<and> \<not> (28 \<le> c \<and> c \<le> 31))"

fun parse_digits :: "ustr \<Rightarrow> nat \<Rightarrow> nat option" where
  \<comment> \<open>the rest of a number after a digit; \<open>acc\<close> is the value read so far\<close>
  "parse_digits [] acc = Some acc"
| "parse_digits (c # cs) acc =
     (if c = 95 then
        (case cs of
           [] \<Rightarrow> None
         | d # ds \<Rightarrow> (case digit_val d of
                        None \<Rightarrow> None
                      | Some v \<Rightarrow> parse_digits ds (acc * 10 + v)))
      else (case digit_val c of
              None \<Rightarrow> None
            | Some v \<Rightarrow> parse_digits cs (acc * 10 + v)))"

definition parse_nat :: "ustr \<Rightarrow> nat option" where
  "parse_nat s =
     (case s of
        [] \<Rightarrow> None
      | c # cs \<Rightarrow> (case digit_val c of None \<Rightarrow> None | Some v \<Rightarrow> parse_digits cs v))"

definition py_int :: "ustr \<Rightarrow> int option" where
  \<comment> \<open>\<open>int(s)\<close>; \<open>None\<close>: \<open>ValueError\<close>\<close>
  "py_int s =
     (case strip_by int_space s of
        [] \<Rightarrow> None
      | c # cs \<Rightarrow>
          if c = 45 then map_option (\<lambda>n. - int n) (parse_nat cs)
          else if c = 43 then map_option int (parse_nat cs)
          else map_option int (parse_nat (c # cs)))"

definition cell_int :: "cell \<Rightarrow> int" where
  \<comment> \<open>what one cell adds to \<open>total\<close> in \<open>sum_string_numbers\<close>. The text of an integer
      parses back to it; the text of a float always has a point, an exponent or letters,
      so \<open>int\<close> rejects it.\<close>
  "cell_int val =
     (if isna val then 0
      else case val of
             IntCell n \<Rightarrow> n
           | FloatCell x \<Rightarrow> 0
           | TextCell s \<Rightarrow>
               (case py_int (strip (remove_char 44 s)) of Some n \<Rightarrow> n | None \<Rightarrow> 0))"

function digits_of :: "nat \<Rightarrow> ustr" where
  \<comment> \<open>the decimal digits, most significant first\<close>
  "digits_of n = (if n < 10 then [48 + n] else digits_of (n div 10) @ [48 + n mod 10])"
  by pat_completeness auto
termination
  by (relation "measure id") auto

function group3 :: "ustr \<Rightarrow> ustr" where
  \<comment> \<open>a comma before every group of three digits, counted from the right\<close>
  "group3 ds =
     (if length ds \<le> 3 then ds
      else group3 (take (length ds - 3) ds) @ [44] @ drop (length ds - 3) ds)"
  by pat_completeness auto
termination
  by (relation "measure length") auto

declare digits_of.simps [simp del]
declare group3.simps [simp del]

definition format_commas :: "int \<Rightarrow> ustr" where
  \<comment> \<open>the format \<open>f"{total:,}"\<close>\<close>
  "format_commas n =
     (if n < 0 then 45 # group3 (digits_of (nat (- n))) else group3 (digits_of (nat n)))"

definition sum_string_numbers :: "cell list \<Rightarrow> cell" where
  "sum_string_numbers series =
     TextCell (format_commas (foldl (\<lambda>total val. total + cell_int val) 0 series))"

definition first_value :: "ustr list \<Rightarrow> ustr" where
  "first_value series = (case series of [] \<Rightarrow> [] | x # _ \<Rightarrow> x)"

definition numeric_cols :: "crime_row list \<Rightarrow> nat" where
  \<comment> \<open>how many of the ten numeric columns the table has; every row has all of them\<close>
  "numeric_cols df = (case df of [] \<Rightarrow> 0 | r # _ \<Rightarrow> length (counts r))"

definition merge_duplicate_gu :: "crime_row list \<Rightarrow> crime_row list" where
  \<comment> \<open>\<open>df.groupby(district, as_index=False).agg(agg_dict)\<close>: one row for each key, the
      keys sorted, the rows of a group in input order\<close>
  "merge_duplicate_gu df =
     map (\<lambda>k. let grp = filter (\<lambda>r. gu r = k) df
               in \<lparr>station = first_value (map station grp),
                   counts = map (\<lambda>j. sum_string_numbers (map (\<lambda>r. counts r ! j) grp))
                              [0..<numeric_cols df],
                   gu = k\<rparr>)
       (sort (remdups (map gu df)))"

text \<open>
  Sample rows: two stations of the district U+AC15 U+B0A8 U+AD6C with 3 and 5
  occurrences in the first column and "1,234" and "766" clearances in the second; and
  two rows of that district whose first column holds the floats 3.0 and 5.0 and whose
  second column holds the full-width text of 12 and the text "3.0".
\<close>

definition gangnam_rows :: "crime_row list" where
  "gangnam_rows =
     [\<lparr>station = [44053, 45224, 49436], counts = [TextCell (ustr ''3''), TextCell (ustr ''1,234'')],
       gu = gangnam_gu\<rparr>,
      \<lparr>station = [49688, 49436, 49436], counts = [TextCell (ustr ''5''), TextCell (ustr ''766'')],
       gu = gangnam_gu\<rparr>]"

definition float_rows :: "crime_row list" where
  "float_rows =
     [\<lparr>station = [44053, 45224, 49436], counts = [FloatCell (Fin 3), TextCell [65297, 65298]],
       gu = gangnam_gu\<rparr>,
      \<lparr>station = [49688, 49436, 49436], counts = [FloatCell (Fin 5), TextCell (ustr ''3.0'')],
       gu = gangnam_gu\<rparr>]"

section \<open>Properties of the Geocode Resolver and the District Resolver\<close>

lemma geocode_try_403:
  "geocode_try pf (Response 403 (Some (JObj kv))) =
     Raised (AccessDenied403
       (case map_of kv ''message'' of Some v \<Rightarrow> v | None \<Rightarrow> JStr (ustr ''Forbidden'')))"
  by (simp add: geocode_try_def obind_def dict_get_def)

lemma geocode_403_object:
  "geocode pf (Response 403 (Some (JObj kv))) = Returned []"
  by (simp add: geocode_def geocode_try_403 is_request_exception_def)

text \<open>
  C3 (the code at the failing input). A 403 answer whose body is
  \<open>{"message": "disabled"}\<close>: the \<open>try\<close> block raises the access-denied error with the
  upstream message, but the handler for every other exception catches it, so
  \<open>geocode\<close> returns the empty list, the same value as for an answer with no documents.
\<close>

theorem geocode_403_swallowed:
  "geocode_try (\<lambda>s. None) (Response 403 (Some (JObj [(''message'', JStr (ustr ''disabled''))])))
     = Raised (AccessDenied403 (JStr (ustr ''disabled'')))
   \<and> geocode (\<lambda>s. None) (Response 403 (Some (JObj [(''message'', JStr (ustr ''disabled''))])))
     = Returned []
   \<and> geocode (\<lambda>s. None) (Response 200 (Some (JObj [(''documents'', JList [])])))
     = Returned []"
  by (simp add: geocode_403_object geocode_try_403)
    (simp add: geocode_def geocode_try_def obind_def dict_get_def truthy_def)

lemma geocode_try_shape:
  "geocode_try pf h = Returned r \<Longrightarrow>
     r = [] \<or> (\<exists>a lat lng. r = [\<lparr>address_components = None, formatted_address = Some a,
                                   geometry = Some (lat, lng)\<rparr>])"
  unfolding geocode_try_def obind_def
  by (auto split: http.splits option.splits if_splits outcome.splits)

lemma geocode_shape:
  "geocode pf h = Returned r \<Longrightarrow>
     r = [] \<or> (\<exists>a lat lng. r = [\<lparr>address_components = None, formatted_address = Some a,
                                   geometry = Some (lat, lng)\<rparr>])"
  unfolding geocode_def
  by (auto split: outcome.splits if_splits dest: geocode_try_shape)

text \<open>
  C10. Whenever \<open>geocode\<close> returns a non-empty list, the list has one element, whose keys
  are exactly \<open>formatted_address\<close> and \<open>geometry\<close>; \<open>address_components\<close> is absent, so
  the list the component loop of \<open>_get_district_from_kakao_maps\<close> runs over is empty,
  and the district is what the regular-expression search finds in the formatted address
  (the basic rule when it finds nothing or the address is not a string).
\<close>

theorem geocode_item_keys:
  assumes "geocode pf h = Returned (it # rest)"
    and "geo (station_name @ [32] @ seoul) = geocode pf h"
  shows "rest = []
     \<and> item_keys it = [''formatted_address'', ''geometry'']
     \<and> (case address_components it of None \<Rightarrow> [] | Some cs \<Rightarrow> cs) = []
     \<and> fst (get_district_from_kakao_maps geo station_name) =
           (case formatted_address it of
              Some (JStr a) \<Rightarrow>
                (case re_search_gu a of Some d \<Rightarrow> d | None \<Rightarrow> basic_rule station_name)
            | _ \<Rightarrow> basic_rule station_name)"
  using geocode_shape[OF assms(1)] assms
  by (auto simp: item_keys_def get_district_from_kakao_maps_def district_try_def obind_def Let_def
           split: json.splits option.splits)

lemma endswith_single: "endswith s [c] \<longleftrightarrow> s \<noteq> [] \<and> last s = c"
  by (cases s rule: rev_cases) (auto simp: endswith_def)

lemma replace_char_absent: "a \<notin> set s \<Longrightarrow> replace_char a b s = s"
  by (induction s) (auto simp: replace_char_def)

lemma replace_char_append:
  "replace_char a b (xs @ ys) = replace_char a b xs @ replace_char a b ys"
  by (simp add: replace_char_def)

lemma replace_char_last:
  assumes "s \<noteq> []" "last s = a" "a \<notin> set (butlast s)"
  shows "replace_char a b s = butlast s @ [b]"
proof -
  have 1: "replace_char a b (butlast s) = butlast s"
    using assms(3) by (rule replace_char_absent)
  have 2: "replace_char a b [last s] = [b]"
    using assms(2) by (simp add: replace_char_def)
  have "s = butlast s @ [last s]" using assms(1) by simp
  then have "replace_char a b s = replace_char a b (butlast s) @ replace_char a b [last s]"
    by (metis replace_char_append)
  then show ?thesis using 1 2 by simp
qed

text \<open>
  Where the station suffix occurs only at the end of the name, \<open>replace\<close> changes the
  final character alone; the validated rewrite is then returned with no geocode query.
\<close>

lemma station_to_district_basic_rule:
  assumes "endswith s [ch_seo]" "ch_seo \<notin> set (butlast s)" "butlast s @ [ch_gu] \<in> set valid"
  shows "station_to_district (Returned valid) geo s = Returned (butlast s @ [ch_gu], [])"
  using assms
  by (simp add: station_to_district_def obind_def endswith_single replace_char_last)

text \<open>
  C1 (the code at the failing input). The station name U+C11C U+B300 U+BB38 U+C11C
  (Seodaemun-seo) ends in the station suffix and its rewrite with the final character
  replaced, U+C11C U+B300 U+BB38 U+AD6C (Seodaemun-gu), is in the known-district set. But
  \<open>replace\<close> also rewrites the first character, the candidate U+AD6C U+B300 U+BB38 U+AD6C
  is not a known district, and one geocode query is sent; with a geocoder that finds
  nothing the unvalidated candidate is returned.
\<close>

theorem station_to_district_seodaemun:
  "endswith [49436, 45824, 47928, 49436] [ch_seo]
   \<and> butlast [49436, 45824, 47928, 49436] @ [ch_gu] \<in> set [[49436, 45824, 47928, 44396]]
   \<and> station_to_district (Returned [[49436, 45824, 47928, 44396]]) (\<lambda>q. Returned [])
        [49436, 45824, 47928, 49436]
     = Returned ([44396, 45824, 47928, 44396], [[49436, 45824, 47928, 49436, 32, 49436, 50872]])"
  by (simp add: station_to_district_def endswith_def ch_seo_def ch_gu_def replace_char_def
        obind_def get_district_from_kakao_maps_def district_try_def basic_rule_def seoul_def)

theorem geocode_item_keys_witness:
  "geocode (\<lambda>s. None) bangbae_http
     = Returned [\<lparr>address_components = None, formatted_address = Some (JStr bangbae_addr),
          geometry = Some (37, 127)\<rparr>]
   \<and> item_keys \<lparr>address_components = None, formatted_address = Some (JStr bangbae_addr),
          geometry = Some (37, 127)\<rparr> = [''formatted_address'', ''geometry'']
   \<and> fst (get_district_from_kakao_maps (\<lambda>q. geocode (\<lambda>s. None) bangbae_http)
        [48169, 48176, 49436]) = [44053, 45224, 44396]"
proof -
  let ?it = "\<lparr>address_components = None, formatted_address = Some (JStr bangbae_addr),
          geometry = Some (37, 127)\<rparr>"
  have g: "geocode (\<lambda>s. None) bangbae_http = Returned (?it # [])"
    by (simp add: bangbae_http_def geocode_def geocode_try_def obind_def dict_get_def
          truthy_def py_len_def index0_def py_float_def)
  have r: "re_search_gu bangbae_addr = Some [44053, 45224, 44396]"
    by (simp add: bangbae_addr_def is_hangul_def ch_gu_def)
  have e: "(\<lambda>q. geocode (\<lambda>s. None) bangbae_http) ([48169, 48176, 49436] @ [32] @ seoul)
       = geocode (\<lambda>s. None) bangbae_http" by simp
  note th = geocode_item_keys[OF g e]
  from th have "item_keys ?it = [''formatted_address'', ''geometry'']" by blast
  moreover from th
  have "fst (get_district_from_kakao_maps (\<lambda>q. geocode (\<lambda>s. None) bangbae_http)
        [48169, 48176, 49436]) = [44053, 45224, 44396]"
    by (simp add: r)
  ultimately show ?thesis using g by simp
qed

section \<open>Properties of the resolver object\<close>

lemma retrieve_api_key_facts:
  "retrieve_api_key p = (r, p') \<Longrightarrow>
     key_reads p' = Suc (key_reads p) \<and> instance_ref p' = instance_ref p \<and> heap p' = heap p
     \<and> env_loaded p' \<and> dotenv_file p' = dotenv_file p
     \<and> (case r of
           Returned k \<Rightarrow> getenv_key (environ p') = Some k \<and> k \<noteq> []
         | Raised e \<Rightarrow> e = MissingApiKey
              \<and> (getenv_key (environ p') = None \<or> getenv_key (environ p') = Some []))"
  unfolding retrieve_api_key_def Let_def
  by (auto split: option.splits list.splits if_splits)

lemma KakaoMapSingleton_new_existing:
  "instance_ref p = Some obj \<Longrightarrow> KakaoMapSingleton_new p = (Returned obj, p)"
  by (simp add: KakaoMapSingleton_new_def)

text \<open>
  C9 (as amended). The first construction in a process executes \<open>_retrieve_api_key\<close>
  once. If it finds a non-empty key in one of the two variables (after the \<open>.env\<close> file
  is loaded), the object returned holds that key, and a later construction, whatever the
  environment has become, returns the same object with the same key, leaves the state as
  it is and reads nothing. If neither variable holds a non-empty key, it is this first
  construction that raises the configuration error.
\<close>

theorem singleton_new_cached:
  "(case KakaoMapSingleton_new (fresh_process env dot) of
      (Returned obj, p) \<Rightarrow>
         key_reads p = 1
         \<and> (\<exists>k. k \<noteq> [] \<and> getenv_key (environ p) = Some k \<and> get_api_key p obj = Returned k
              \<and> (\<forall>env'. KakaoMapSingleton_new (p\<lparr>environ := env'\<rparr>)
                          = (Returned obj, p\<lparr>environ := env'\<rparr>)
                       \<and> get_api_key (p\<lparr>environ := env'\<rparr>) obj = Returned k
                       \<and> key_reads (p\<lparr>environ := env'\<rparr>) = 1))
    | (Raised e, p) \<Rightarrow>
         e = MissingApiKey \<and> key_reads p = 1
         \<and> (getenv_key (environ p) = None \<or> getenv_key (environ p) = Some []))"
proof -
  let ?p0 = "fresh_process env dot"
  let ?p1 = "?p0\<lparr>heap := heap ?p0 @ [\<lparr>api_key_attr = None, base_url_attr = None\<rparr>],
                 instance_ref := Some (length (heap ?p0))\<rparr>"
  obtain r p2 where rp: "retrieve_api_key ?p1 = (r, p2)"
    by (cases "retrieve_api_key ?p1")
  note f = retrieve_api_key_facts[OF rp]
  show ?thesis
  proof (cases r)
    case (Returned k)
    then show ?thesis using f rp
      by (auto simp: KakaoMapSingleton_new_def fresh_process_def Let_def get_api_key_def)
  next
    case (Raised e)
    then show ?thesis using f rp
      by (auto simp: KakaoMapSingleton_new_def fresh_process_def Let_def)
  qed
qed

text \<open>
  C9 (the claim as stated fails). With neither variable set and no \<open>.env\<close> file, importing
  the router module, which the application does when it starts, already raises the
  configuration error: no geocode call has been attempted. The class variable keeps the
  half-built object, so the next construction returns it, and a geocode call on it
  raises \<open>AttributeError\<close>, not the configuration error.
\<close>

theorem import_without_key_raises:
  "fst (import_seoul_router (fresh_process (\<lambda>v. None) None)) = Raised MissingApiKey
   \<and> fst (KakaoMapSingleton_new (snd (import_seoul_router (fresh_process (\<lambda>v. None) None))))
       = Returned 0
   \<and> geocode_method (snd (import_seoul_router (fresh_process (\<lambda>v. None) None))) 0
        (\<lambda>s. None) NoResponse = Raised AttributeError"
  by (simp add: import_seoul_router_def SeoulService_init_def SeoulMethod_init_def
      KakaoMapSingleton_new_def fresh_process_def retrieve_api_key_def getenv_key_def Let_def
      geocode_method_def)

section \<open>Properties of the Table Reconciler\<close>

lemma map_of_update_values:
  "map_of (map (\<lambda>(k', v'). if k' = k then (k', v) else (k', v')) m) x =
     (if x = k then (if k \<in> set (map fst m) then Some v else None) else map_of m x)"
  by (induction m) (auto simp: image_iff, force+)

lemma map_of_dict_set: "map_of (dict_set m k v) = (map_of m)(k \<mapsto> v)"
proof (cases "k \<in> set (map fst m)")
  case True
  then show ?thesis by (auto simp: dict_set_def map_of_update_values fun_eq_iff)
next
  case False
  then have "map_of m k = None" by (simp add: map_of_eq_None_iff)
  with False show ?thesis
    by (auto simp: dict_set_def map_add_def fun_eq_iff split: option.splits)
qed

lemma set_dict_set: "set (dict_set m k v) \<subseteq> insert (k, v) (set m)"
  by (auto simp: dict_set_def split: if_splits)

lemma gu_mapping_loop_lookup:
  "map_of (gu_mapping_loop cl names m) c =
     (if c \<in> set cl \<and> c \<noteq> [] \<and> c \<noteq> jongno \<and> c \<notin> set names \<and> first_similar c names \<noteq> None
      then first_similar c names else map_of m c)"
  by (induction cl arbitrary: m) (auto simp: map_of_dict_set split: option.splits)

lemma gu_mapping_loop_sound:
  "(k, v) \<in> set (gu_mapping_loop cl names m) \<Longrightarrow>
     (k, v) \<in> set m \<or> (k \<in> set cl \<and> k \<noteq> [] \<and> k \<noteq> jongno \<and> k \<notin> set names
                        \<and> first_similar k names = Some v)"
proof (induction cl arbitrary: m)
  case Nil
  then show ?case by simp
next
  case (Cons a cl)
  from Cons.IH[OF Cons.prems[simplified gu_mapping_loop.simps]]
  show ?case using set_dict_set[of m a]
    by (auto split: if_splits option.splits)
qed

lemma reverse_mapping_snoc:
  "reverse_mapping (m @ [(k, v)]) = dict_set (reverse_mapping m) v k"
  by (simp add: reverse_mapping_def)

lemma reverse_mapping_sound:
  "(v, k) \<in> set (reverse_mapping m) \<Longrightarrow> (k, v) \<in> set m"
proof (induction m arbitrary: v k rule: rev_induct)
  case Nil
  then show ?case by (simp add: reverse_mapping_def)
next
  case (snoc x xs)
  obtain k' v' where x: "x = (k', v')" by (cases x)
  from snoc.prems have "(v, k) \<in> insert (v', k') (set (reverse_mapping xs))"
    using set_dict_set[of "reverse_mapping xs" v' k'] by (auto simp: x reverse_mapping_snoc)
  then show ?case using snoc.IH by (auto simp: x)
qed

lemma unique_set: "set (unique xs) = set xs"
  by (induction xs rule: unique.induct) auto

lemma unique_distinct: "distinct (unique xs)"
  by (induction xs rule: unique.induct) (auto simp: unique_set)

lemma jongno_step_has_jongno:
  "jongno \<in> set cl \<Longrightarrow> jongno \<in> set (map pop_gu (jongno_step cl pop0))"
proof -
  assume j: "jongno \<in> set cl"
  define pop1 where "pop1 =
    (if jongno \<in> set (map pop_gu pop0) then pop0
     else case filter (str_in jongno_stem) (map pop_gu pop0) of
            [] \<Rightarrow> pop0
          | v # _ \<Rightarrow> rename_gu v jongno pop0)"
  have e: "jongno_step cl pop0 =
     (case find (\<lambda>r. pop_gu r = jongno) pop1 of
        None \<Rightarrow> pop1 @ [\<lparr>pop_gu = jongno, pop_value = Fin 162820\<rparr>]
      | Some r \<Rightarrow>
          if fl_ne (pop_value r) (Fin 162820)
          then map (\<lambda>r. if pop_gu r = jongno then r\<lparr>pop_value := Fin 162820\<rparr> else r) pop1
          else pop1)"
    unfolding pop1_def jongno_step_def Let_def using j by (simp only: if_True)
  show ?thesis
  proof (cases "find (\<lambda>r. pop_gu r = jongno) pop1")
    case None
    then show ?thesis by (simp add: e)
  next
    case (Some r)
    then have r: "r \<in> set pop1" "pop_gu r = jongno"
      by (auto simp: find_Some_iff in_set_conv_nth)
    have "map pop_gu (map (\<lambda>r. if pop_gu r = jongno then r\<lparr>pop_value := Fin 162820\<rparr> else r) xs)
        = map pop_gu xs" for xs
      by (induction xs) simp_all
    then have "pop_gu ` set (map (\<lambda>r. if pop_gu r = jongno then r\<lparr>pop_value := Fin 162820\<rparr> else r) pop1)
        = pop_gu ` set pop1"
      by (metis set_map)
    moreover have "jongno \<in> pop_gu ` set pop1" using r by force
    ultimately have "jongno \<in> pop_gu ` set (map (\<lambda>r. if pop_gu r = jongno then r\<lparr>pop_value := Fin 162820\<rparr> else r) pop1)"
      by simp
    moreover have "jongno \<in> pop_gu ` set pop1" using r by force
    ultimately show ?thesis using Some by (simp add: e)
  qed
qed

lemma gu_mapping_loop_entries:
  "distinct cl \<Longrightarrow> set cl \<inter> fst ` set m = {} \<Longrightarrow>
     gu_mapping_loop cl names m =
       m @ map (\<lambda>c. (c, the (first_similar c names)))
             (filter (\<lambda>c. c \<noteq> [] \<and> c \<noteq> jongno \<and> c \<notin> set names
                          \<and> first_similar c names \<noteq> None) cl)"
proof (induction cl arbitrary: m)
  case Nil
  then show ?case by simp
next
  case (Cons a cl)
  have a: "a \<notin> fst ` set m" "a \<notin> set cl" "distinct cl" "set cl \<inter> fst ` set m = {}"
    using Cons.prems by auto
  show ?case
  proof (cases "a \<noteq> [] \<and> a \<noteq> jongno \<and> a \<notin> set names \<and> first_similar a names \<noteq> None")
    case True
    then obtain g where g: "first_similar a names = Some g" by auto
    have d: "dict_set m a g = m @ [(a, g)]" using a(1) by (simp add: dict_set_def)
    have "set cl \<inter> fst ` set (m @ [(a, g)]) = {}" using a by auto
    from Cons.IH[OF a(3) this] True g d show ?thesis by simp
  next
    case False
    from Cons.IH[OF a(3) a(4)] False show ?thesis by (auto split: option.splits)
  qed
qed

lemma reverse_mapping_last:
  "map_of (reverse_mapping m) g =
     (case filter (\<lambda>kv. snd kv = g) m of [] \<Rightarrow> None | x # xs \<Rightarrow> Some (fst (last (x # xs))))"
proof (induction m rule: rev_induct)
  case Nil
  then show ?case by (simp add: reverse_mapping_def)
next
  case (snoc x xs)
  obtain k v where x: "x = (k, v)" by (cases x)
  show ?case using snoc.IH
    by (cases "v = g") (auto simp: x reverse_mapping_snoc map_of_dict_set split: list.splits)
qed

lemma first_similar_first:
  "first_similar c names = Some g \<Longrightarrow>
     \<exists>pre post. names = pre @ g # post \<and> similar_gu c g \<and> (\<forall>x\<in>set pre. \<not> similar_gu c x)"
  by (auto simp: first_similar_def filter_eq_Cons_iff split: list.splits)

text \<open>
  C5 (as amended). Let the crime-table names be taken in order of first occurrence and
  the population table be as it stands after the special handling of the one district.
  A crime-table district name that is not empty and is absent from the population
  table's names is mapped to the first population name, in table order, that contains
  it, is contained in it, or is equal to it once every district-suffix character is
  removed from both. The population rows that carried that name are renamed to the last
  crime-table name that selected it: they are exactly the rows that carry that last name
  after the renaming, and an earlier crime-table name that selected the same population
  name is carried by no population row.
\<close>

theorem remap_pop_last_wins:
  fixes gs :: "ustr list" and pop0 :: "pop_row list"
  defines "cl \<equiv> unique gs"
  defines "pop \<equiv> jongno_step cl pop0"
  defines "names \<equiv> map pop_gu pop"
  assumes c: "c \<in> set gs" "c \<noteq> []" "c \<notin> set names"
    and g: "first_similar c names = Some g"
  shows "map_of (gu_mapping_loop cl names []) c = Some g
       \<and> (\<exists>pre post. names = pre @ g # post \<and> similar_gu c g
                        \<and> (\<forall>x\<in>set pre. \<not> similar_gu c x))
       \<and> filter (\<lambda>p. pop_gu p = c) (remap_pop cl pop) =
           (if c = last (filter (\<lambda>c'. c' \<noteq> [] \<and> c' \<notin> set names
                                        \<and> first_similar c' names = Some g) cl)
            then map (\<lambda>r. r\<lparr>pop_gu := c\<rparr>) (filter (\<lambda>p. pop_gu p = g) pop)
            else [])"
proof -
  let ?m = "gu_mapping_loop cl names []"
  let ?f = "\<lambda>c. (c, the (first_similar c names))"
  let ?E = "\<lambda>c. c \<noteq> [] \<and> c \<noteq> jongno \<and> c \<notin> set names \<and> first_similar c names \<noteq> None"
  let ?F = "\<lambda>c'. c' \<noteq> [] \<and> c' \<notin> set names \<and> first_similar c' names = Some g"
  have cj: "c' \<noteq> jongno" if "c' \<in> set cl" "c' \<notin> set names" for c'
    using jongno_step_has_jongno[of cl pop0] that unfolding names_def pop_def by auto
  have ccl: "c \<in> set cl" using c(1) by (simp add: cl_def unique_set)
  have look: "map_of ?m c = Some g"
    using ccl c g cj[OF ccl c(3)] by (simp add: gu_mapping_loop_lookup)
  have first: "\<exists>pre post. names = pre @ g # post \<and> similar_gu c g
                        \<and> (\<forall>x\<in>set pre. \<not> similar_gu c x)"
    using g by (rule first_similar_first)
  have m: "?m = map ?f (filter ?E cl)"
    using gu_mapping_loop_entries[of cl "[]" names] unique_distinct[of gs]
    by (simp add: cl_def)
  have "filter (\<lambda>kv. snd kv = g) ?m = map ?f (filter (\<lambda>x. ?E x \<and> the (first_similar x names) = g) cl)"
    unfolding m by (simp add: filter_map o_def)
  also have "filter (\<lambda>x. ?E x \<and> the (first_similar x names) = g) cl = filter ?F cl"
    using cj by (intro filter_cong) auto
  finally have fm: "filter (\<lambda>kv. snd kv = g) ?m = map ?f (filter ?F cl)" .
  define w where "w = last (filter ?F cl)"
  have cF: "c \<in> set (filter ?F cl)" using ccl c g by simp
  have ne: "filter ?F cl \<noteq> []" using ccl c g by (auto simp: filter_empty_conv)
  have "map_of (reverse_mapping ?m) g = Some (fst (last (map ?f (filter ?F cl))))"
  proof (cases "map ?f (filter ?F cl)")
    case Nil
    with ne show ?thesis by simp
  next
    case (Cons x xs)
    then show ?thesis by (simp only: reverse_mapping_last fm list.case)
  qed
  then have rev_g: "map_of (reverse_mapping ?m) g = Some w"
    using ne by (simp add: w_def last_map)
  let ?rv = "\<lambda>x. case map_of (reverse_mapping ?m) x of Some k \<Rightarrow> k | None \<Rightarrow> x"
  have rv: "?rv (pop_gu r) = c \<longleftrightarrow> pop_gu r = g \<and> c = w" if "r \<in> set pop" for r
  proof
    assume a: "?rv (pop_gu r) = c"
    show "pop_gu r = g \<and> c = w"
    proof (cases "map_of (reverse_mapping ?m) (pop_gu r)")
      case None
      with a have "pop_gu r = c" by simp
      with that c(3) show ?thesis by (auto simp: names_def)
    next
      case (Some k)
      with a have k: "k = c" by simp
      with Some have "(pop_gu r, c) \<in> set (reverse_mapping ?m)" by (auto dest: map_of_SomeD)
      then have "(c, pop_gu r) \<in> set ?m" by (rule reverse_mapping_sound)
      from gu_mapping_loop_sound[OF this] g have pg: "pop_gu r = g" by auto
      with Some k rev_g show ?thesis by simp
    qed
  next
    assume "pop_gu r = g \<and> c = w"
    then show "?rv (pop_gu r) = c" using rev_g by simp
  qed
  have mne: "?m \<noteq> []" using look by auto
  have rp: "remap_pop cl pop = map (\<lambda>r. r\<lparr>pop_gu := ?rv (pop_gu r)\<rparr>) pop"
    using mne by (simp add: remap_pop_def Let_def names_def)
  have "filter (\<lambda>p. pop_gu p = c) (remap_pop cl pop)
       = map (\<lambda>r. r\<lparr>pop_gu := ?rv (pop_gu r)\<rparr>) (filter (\<lambda>r. ?rv (pop_gu r) = c) pop)"
    unfolding rp by (simp add: filter_map o_def)
  also have "filter (\<lambda>r. ?rv (pop_gu r) = c) pop = filter (\<lambda>p. pop_gu p = g \<and> c = w) pop"
    using rv by (intro filter_cong) auto
  finally have fin: "filter (\<lambda>p. pop_gu p = c) (remap_pop cl pop)
       = map (\<lambda>r. r\<lparr>pop_gu := ?rv (pop_gu r)\<rparr>) (filter (\<lambda>p. pop_gu p = g \<and> c = w) pop)" .
  have last: "filter (\<lambda>p. pop_gu p = c) (remap_pop cl pop) =
           (if c = w then map (\<lambda>r. r\<lparr>pop_gu := c\<rparr>) (filter (\<lambda>p. pop_gu p = g) pop) else [])"
  proof (cases "c = w")
    case True
    have "map (\<lambda>r. r\<lparr>pop_gu := ?rv (pop_gu r)\<rparr>) (filter (\<lambda>p. pop_gu p = g) pop)
       = map (\<lambda>r. r\<lparr>pop_gu := c\<rparr>) (filter (\<lambda>p. pop_gu p = g) pop)"
      using rev_g True by (intro map_cong) auto
    then show ?thesis using True fin by simp
  next
    case False
    then show ?thesis using fin by simp
  qed
  show ?thesis using look first last unfolding w_def by blast
qed

text \<open>
  An instance of C5 (as amended): two crime-table names select the second of three
  population names; the rows of that name are renamed to the later crime-table name and
  none to the earlier.
\<close>

theorem remap_pop_last_wins_witness:
  "unique two_gu = [gangnam_gu, namgu]
   \<and> first_similar namgu (map pop_gu three_pop) = Some seoul_gangnam
   \<and> first_similar gangnam_gu (map pop_gu three_pop) = Some seoul_gangnam
   \<and> filter (\<lambda>p. pop_gu p = namgu)
         (remap_pop (unique two_gu) (jongno_step (unique two_gu) three_pop))
       = [\<lparr>pop_gu = namgu, pop_value = Fin 500000\<rparr>]
   \<and> filter (\<lambda>p. pop_gu p = gangnam_gu)
         (remap_pop (unique two_gu) (jongno_step (unique two_gu) three_pop)) = []"
proof -
  have u: "unique two_gu = [gangnam_gu, namgu]"
    by (simp add: two_gu_def namgu_def gangnam_gu_def)
  have j: "jongno_step [gangnam_gu, namgu] three_pop = three_pop"
    by (simp add: jongno_step_def Let_def three_pop_def namgu_def gangnam_gu_def jongno_def
        jongno_stem_def seoul_gangnam_def gangnam_office_def)
  have n: "map pop_gu three_pop = [[47560, 54252, 44396], seoul_gangnam, gangnam_office]"
    by (simp add: three_pop_def)
  have f1: "first_similar namgu [[47560, 54252, 44396], seoul_gangnam, gangnam_office] = Some seoul_gangnam"
    by (simp add: first_similar_def similar_gu_def namgu_def seoul_gangnam_def gangnam_office_def
        remove_char_def ch_gu_def)
  have f2: "first_similar gangnam_gu [[47560, 54252, 44396], seoul_gangnam, gangnam_office] = Some seoul_gangnam"
    by (simp add: first_similar_def similar_gu_def gangnam_gu_def seoul_gangnam_def gangnam_office_def
        remove_char_def ch_gu_def)
  have d: "namgu \<noteq> []" "gangnam_gu \<noteq> []" "namgu \<noteq> gangnam_gu"
    "namgu \<notin> set [[47560, 54252, 44396], seoul_gangnam, gangnam_office]"
    "gangnam_gu \<notin> set [[47560, 54252, 44396], seoul_gangnam, gangnam_office]"
    by (simp_all add: namgu_def gangnam_gu_def seoul_gangnam_def gangnam_office_def)
  have l: "last (filter (\<lambda>c'. c' \<noteq> [] \<and> c' \<notin> set [[47560, 54252, 44396], seoul_gangnam, gangnam_office]
              \<and> first_similar c' [[47560, 54252, 44396], seoul_gangnam, gangnam_office] = Some seoul_gangnam)
            [gangnam_gu, namgu]) = namgu"
    using d f1 f2 by simp
  have g: "filter (\<lambda>p. pop_gu p = seoul_gangnam) three_pop = [\<lparr>pop_gu = seoul_gangnam, pop_value = Fin 500000\<rparr>]"
    by (simp add: three_pop_def seoul_gangnam_def gangnam_office_def)
  have a: "filter (\<lambda>p. pop_gu p = namgu)
         (remap_pop (unique two_gu) (jongno_step (unique two_gu) three_pop))
       = [\<lparr>pop_gu = namgu, pop_value = Fin 500000\<rparr>]"
    using remap_pop_last_wins[of namgu two_gu three_pop seoul_gangnam] d f1
    unfolding u j n l g by (simp add: two_gu_def)
  have b: "filter (\<lambda>p. pop_gu p = gangnam_gu)
         (remap_pop (unique two_gu) (jongno_step (unique two_gu) three_pop)) = []"
    using remap_pop_last_wins[of gangnam_gu two_gu three_pop seoul_gangnam] d f2
    unfolding u j n l g by (simp add: two_gu_def)
  show ?thesis using u f1 f2 a b unfolding n by blast
qed

text \<open>
  C5 (the claim as stated fails). The crime-table district written with an inner space
  is left as it is by \<open>normalize_gu_name\<close> and is not similar to the
  population-table name under any of the rules, so the merged crime row has no
  population. An empty crime-table name is contained in every population name and yet
  is never mapped. Of two crime-table names that select the same population name, the
  earlier one gets no population.
\<close>

theorem reconcile_unmatched_names:
  "normalize_crime spaced_crime = spaced_crime
   \<and> \<not> similar_gu jongno_spaced jongno
   \<and> reconcile spaced_crime jongno_pop = [\<lparr>crime = hd spaced_crime, population = NaN\<rparr>]
   \<and> first_similar [] (map pop_gu gangnam_pop) = Some gangnam_gu
   \<and> remap_pop (unique (map gu empty_crime))
        (jongno_step (unique (map gu empty_crime)) gangnam_pop) = gangnam_pop
   \<and> reconcile empty_crime gangnam_pop = [\<lparr>crime = hd empty_crime, population = NaN\<rparr>]
   \<and> reconcile two_crime three_pop =
        [\<lparr>crime = two_crime ! 0, population = NaN\<rparr>,
         \<lparr>crime = two_crime ! 1, population = Fin 500000\<rparr>]
   \<and> gu (two_crime ! 0) = gangnam_gu"
proof -
  have n: "normalize_crime spaced_crime = spaced_crime"
    by (simp add: normalize_crime_def spaced_crime_def normalize_gu_name_def strip_def
        strip_char_def strip_by_def jongno_spaced_def is_space_def)
  have s: "\<not> similar_gu jongno_spaced jongno"
    by (simp add: similar_gu_def jongno_spaced_def jongno_def remove_char_def ch_gu_def)
  have u: "unique (map gu spaced_crime) = [jongno_spaced]"
    by (simp add: spaced_crime_def)
  have ne: "jongno_spaced \<noteq> jongno" "jongno_spaced \<noteq> []"
    by (simp_all add: jongno_spaced_def jongno_def)
  have j: "jongno_step [jongno_spaced] jongno_pop = jongno_pop"
    using ne by (simp add: jongno_step_def jongno_pop_def Let_def)
  have r: "remap_pop [jongno_spaced] jongno_pop = jongno_pop"
    using s ne by (simp add: remap_pop_def jongno_pop_def first_similar_def)
  have m: "reconcile spaced_crime jongno_pop = [\<lparr>crime = hd spaced_crime, population = NaN\<rparr>]"
    using ne by (simp add: reconcile_def u j r Let_def) (simp add: merge_left_def spaced_crime_def jongno_pop_def)
  have e1: "first_similar [] (map pop_gu gangnam_pop) = Some gangnam_gu"
    by (simp add: first_similar_def similar_gu_def gangnam_pop_def gangnam_gu_def)
  have eu: "unique (map gu empty_crime) = [[]]" by (simp add: empty_crime_def)
  have ej: "jongno_step [[]] gangnam_pop = gangnam_pop"
    by (simp add: jongno_step_def Let_def gangnam_pop_def gangnam_gu_def jongno_def jongno_stem_def)
  have er: "remap_pop [[]] gangnam_pop = gangnam_pop"
    by (simp add: remap_pop_def)
  have em: "reconcile empty_crime gangnam_pop = [\<lparr>crime = hd empty_crime, population = NaN\<rparr>]"
    by (simp add: reconcile_def eu ej er Let_def) (simp add: merge_left_def empty_crime_def gangnam_pop_def gangnam_gu_def)
  have tu: "unique (map gu two_crime) = [gangnam_gu, namgu]"
    by (simp add: two_crime_def namgu_def gangnam_gu_def)
  have tj: "jongno_step [gangnam_gu, namgu] three_pop = three_pop"
    by (simp add: jongno_step_def Let_def three_pop_def namgu_def gangnam_gu_def jongno_def
        jongno_stem_def seoul_gangnam_def gangnam_office_def)
  have f1: "first_similar namgu [[47560, 54252, 44396], seoul_gangnam, gangnam_office] = Some seoul_gangnam"
    by (simp add: first_similar_def similar_gu_def namgu_def seoul_gangnam_def gangnam_office_def
        remove_char_def ch_gu_def)
  have f2: "first_similar gangnam_gu [[47560, 54252, 44396], seoul_gangnam, gangnam_office] = Some seoul_gangnam"
    by (simp add: first_similar_def similar_gu_def gangnam_gu_def seoul_gangnam_def gangnam_office_def
        remove_char_def ch_gu_def)
  have d: "namgu \<noteq> []" "gangnam_gu \<noteq> []" "namgu \<noteq> gangnam_gu" "namgu \<noteq> jongno" "gangnam_gu \<noteq> jongno"
    "namgu \<notin> set [[47560, 54252, 44396], seoul_gangnam, gangnam_office]"
    "gangnam_gu \<notin> set [[47560, 54252, 44396], seoul_gangnam, gangnam_office]"
    "seoul_gangnam \<noteq> [47560, 54252, 44396]" "seoul_gangnam \<noteq> gangnam_office"
    "seoul_gangnam \<noteq> namgu" "seoul_gangnam \<noteq> gangnam_gu" "gangnam_office \<noteq> gangnam_gu"
    "gangnam_office \<noteq> namgu"
    by (simp_all add: namgu_def gangnam_gu_def seoul_gangnam_def gangnam_office_def jongno_def)
  have gm: "gu_mapping_loop [gangnam_gu, namgu] [[47560, 54252, 44396], seoul_gangnam, gangnam_office] []
      = [(gangnam_gu, seoul_gangnam), (namgu, seoul_gangnam)]"
    using d f1 f2 by (simp add: dict_set_def)
  have rm: "reverse_mapping [(gangnam_gu, seoul_gangnam), (namgu, seoul_gangnam)] = [(seoul_gangnam, namgu)]"
    by (simp add: reverse_mapping_def dict_set_def)
  have tn: "map pop_gu three_pop = [[47560, 54252, 44396], seoul_gangnam, gangnam_office]"
    by (simp add: three_pop_def)
  have tr: "remap_pop [gangnam_gu, namgu] three_pop =
      [\<lparr>pop_gu = [47560, 54252, 44396], pop_value = Fin 300000\<rparr>,
       \<lparr>pop_gu = namgu, pop_value = Fin 500000\<rparr>,
       \<lparr>pop_gu = gangnam_office, pop_value = Fin 7\<rparr>]"
    unfolding remap_pop_def Let_def tn gm rm using d by (simp add: three_pop_def)
  have tm: "reconcile two_crime three_pop =
        [\<lparr>crime = two_crime ! 0, population = NaN\<rparr>,
         \<lparr>crime = two_crime ! 1, population = Fin 500000\<rparr>]"
    using d by (simp add: reconcile_def tu tj tr Let_def) (simp add: merge_left_def two_crime_def)
  have tg: "gu (two_crime ! 0) = gangnam_gu" by (simp add: two_crime_def)
  show ?thesis using n s m e1 er ej em tm tg by (simp add: eu)
qed

lemma merge_left_rows: "set (map crime (merge_left crime_df pop_clean)) = set crime_df"
  unfolding merge_left_def by (auto split: list.splits simp: image_iff)

text \<open>
  C4 (as amended). The left join keeps every crime-table row. A row whose district has
  no population entry appears with a missing (NaN) population, and only so; nothing in
  \<open>preprocess\<close> fills it. It is \<open>str_to_float\<close>, applied to the population column by
  the heatmap step, that turns the missing value into 0.
\<close>

theorem merge_left_unmatched:
  assumes "c \<in> set crime_df" and "gu c \<notin> set (map pop_gu pop_clean)"
  shows "set (map crime (merge_left crime_df pop_clean)) = set crime_df
       \<and> \<lparr>crime = c, population = NaN\<rparr> \<in> set (merge_left crime_df pop_clean)
       \<and> (\<forall>m\<in>set (merge_left crime_df pop_clean). crime m = c \<longrightarrow> population m = NaN)
       \<and> str_to_float pf (FloatCell NaN) = Fin 0"
proof -
  have f: "filter (\<lambda>p. pop_gu p = gu c) pop_clean = []"
    using assms(2) by (force simp: filter_empty_conv)
  have 1: "\<lparr>crime = c, population = NaN\<rparr> \<in> set (merge_left crime_df pop_clean)"
    using assms(1) f unfolding merge_left_def by (auto intro!: bexI[of _ c])
  have 2: "\<forall>m\<in>set (merge_left crime_df pop_clean). crime m = c \<longrightarrow> population m = NaN"
    using f unfolding merge_left_def by (auto split: list.splits)
  show ?thesis using 1 2 merge_left_rows by (simp add: str_to_float_def isna_def)
qed

theorem merge_left_unmatched_witness:
  "merge_left [mapo_crime] gangnam_pop = [\<lparr>crime = mapo_crime, population = NaN\<rparr>]
   \<and> str_to_float (\<lambda>s. None) (FloatCell NaN) = Fin 0"
proof -
  have h: "mapo_crime \<in> set [mapo_crime]" "gu mapo_crime \<notin> set (map pop_gu gangnam_pop)"
    by (simp_all add: mapo_crime_def gangnam_pop_def gangnam_gu_def)
  have "length (merge_left [mapo_crime] gangnam_pop) = 1"
    by (simp add: merge_left_def mapo_crime_def gangnam_pop_def gangnam_gu_def)
  then obtain m where m: "merge_left [mapo_crime] gangnam_pop = [m]"
    by (cases "merge_left [mapo_crime] gangnam_pop") auto
  from merge_left_unmatched[OF h, of "\<lambda>s. None"] m show ?thesis by auto
qed

text \<open>
  C4 (the claim as stated fails). A crime row for a district the population table does
  not have: after the join, and at the end of the reconciliation, its population is
  NaN, not 0.
\<close>

theorem merge_left_keeps_nan:
  "population (hd (merge_left [mapo_crime] gangnam_pop)) = NaN
   \<and> population (hd (merge_left [mapo_crime] gangnam_pop)) \<noteq> Fin 0
   \<and> population (hd (reconcile [mapo_crime] gangnam_pop)) = NaN"
  by (simp add: merge_left_def reconcile_def remap_pop_def jongno_step_def first_similar_def similar_gu_def
      mapo_crime_def gangnam_pop_def gangnam_gu_def jongno_def jongno_stem_def Let_def remove_char_def ch_gu_def)

section \<open>Properties of the derived columns and the Rate Normalizer\<close>

lemma select_zip:
  "length ms = length xs \<Longrightarrow> length xs = length ys \<Longrightarrow>
     zip (select ms xs) (select ms ys) = select ms (zip xs ys)"
  by (induction ms xs ys rule: list_induct3) auto

lemma loc_assign_select:
  "length ms = length xs \<Longrightarrow> length xs = length ys \<Longrightarrow>
     loc_assign ms xs (map f (select ms ys)) =
       map (\<lambda>(m, x, y). if m then f y else x) (zip ms (zip xs ys))"
  by (induction ms xs ys rule: list_induct3) auto

lemma occurrence_rate_rows:
  assumes "length occur = length pop"
  shows "occurrence_rate A occur pop =
     map2 (\<lambda>c p. if fl_gt p (Fin 0) \<and> notna p
                  then fl_round A 1 (fl_mul A (fl_div A c p) (Fin 100000)) else Fin 0) occur pop"
proof -
  let ?mask = "map (\<lambda>p. fl_gt p (Fin 0) \<and> notna p) pop"
  have "occurrence_rate A occur pop =
      loc_assign ?mask (map (\<lambda>_. Fin 0) pop)
        (map (\<lambda>(c, p). fl_round A 1 (fl_mul A (fl_div A c p) (Fin 100000))) (select ?mask (zip occur pop)))"
    using assms by (simp add: occurrence_rate_def Let_def select_zip[symmetric] split_def o_def)
  also have "\<dots> = map (\<lambda>(m, x, (c, p)). if m then fl_round A 1 (fl_mul A (fl_div A c p) (Fin 100000)) else x)
        (zip ?mask (zip (map (\<lambda>_. Fin 0) pop) (zip occur pop)))"
    using assms by (subst loc_assign_select) (simp_all add: split_def)
  also have "\<dots> = map2 (\<lambda>c p. if fl_gt p (Fin 0) \<and> notna p
                  then fl_round A 1 (fl_mul A (fl_div A c p) (Fin 100000)) else Fin 0) occur pop"
    using assms by (intro nth_equalityI) simp_all
  finally show ?thesis .
qed

lemma arrest_rate_rows:
  assumes "length arrest = length occur"
  shows "arrest_rate A arrest occur =
     map2 (\<lambda>a c. if fl_gt c (Fin 0)
                  then fl_round A 1 (fl_mul A (fl_div A a c) (Fin 100)) else Fin 0) arrest occur"
proof -
  let ?mask = "map (\<lambda>c. fl_gt c (Fin 0)) occur"
  have "arrest_rate A arrest occur =
      loc_assign ?mask (map (\<lambda>_. Fin 0) occur)
        (map (\<lambda>(a, c). fl_round A 1 (fl_mul A (fl_div A a c) (Fin 100))) (select ?mask (zip arrest occur)))"
    using assms by (simp add: arrest_rate_def Let_def select_zip[symmetric] split_def o_def)
  also have "\<dots> = map (\<lambda>(m, x, (a, c)). if m then fl_round A 1 (fl_mul A (fl_div A a c) (Fin 100)) else x)
        (zip ?mask (zip (map (\<lambda>_. Fin 0) occur) (zip arrest occur)))"
    using assms by (subst loc_assign_select) (simp_all add: split_def)
  also have "\<dots> = map2 (\<lambda>a c. if fl_gt c (Fin 0)
                  then fl_round A 1 (fl_mul A (fl_div A a c) (Fin 100)) else Fin 0) arrest occur"
    using assms by (intro nth_equalityI) simp_all
  finally show ?thesis .
qed

lemma fl_gt_notna: "fl_gt p (Fin 0) \<Longrightarrow> notna p"
  by (cases p) (auto simp: fl_gt_def notna_def)


text \<open>
  C2. In a well-formed table, for each of the five categories and each row: the
  occurrence rate is the double quotient of the occurrences by the population, times
  100,000, rounded to one decimal, when the population is greater than 0, and is 0
  otherwise, in particular when the population cell is missing or 0; the clearance rate
  is the double quotient of the clearances by the occurrences, times 100, rounded to one
  decimal, when the occurrences are greater than 0, and is 0 otherwise. The only
  divisions of finite values that are evaluated have a positive divisor.
\<close>

theorem derived_rates:
  assumes "heat_table_ok t" and "i < 5" and "j < length (h_pop t)"
  shows "(let p = str_to_float pf (h_pop t ! j);
              c = str_to_float pf (h_occur t ! i ! j);
              a = str_to_float pf (h_arrest t ! i ! j)
          in rate_df A pf t ! i ! j =
               (if fl_gt p (Fin 0) then fl_round A 1 (fl_mul A (fl_div A c p) (Fin 100000))
                else Fin 0)
           \<and> ((isna (h_pop t ! j) \<or> p = Fin 0) \<longrightarrow> rate_df A pf t ! i ! j = Fin 0)
           \<and> (\<forall>x y. c = Fin x \<and> p = Fin y \<and> 0 < y \<longrightarrow>
                  rate_df A pf t ! i ! j = fl_round A 1 (fl_mul A (dbl_div A x y) (Fin 100000)))
           \<and> arrest_df A pf t ! i ! j =
               (if fl_gt c (Fin 0) then fl_round A 1 (fl_mul A (fl_div A a c) (Fin 100))
                else Fin 0)
           \<and> (c = Fin 0 \<longrightarrow> arrest_df A pf t ! i ! j = Fin 0)
           \<and> (\<forall>x y. a = Fin x \<and> c = Fin y \<and> 0 < y \<longrightarrow>
                  arrest_df A pf t ! i ! j = fl_round A 1 (fl_mul A (dbl_div A x y) (Fin 100))))"
proof -
  let ?n = "length (h_pop t)"
  from assms(1,2) have lo: "length (h_occur t ! i) = ?n" and la: "length (h_arrest t ! i) = ?n"
    and io: "i < length (h_occur t)" and ia: "i < length (h_arrest t)"
    by (auto simp: heat_table_ok_def list_all_length)
  let ?p = "str_to_float pf (h_pop t ! j)"
  let ?c = "str_to_float pf (h_occur t ! i ! j)"
  let ?a = "str_to_float pf (h_arrest t ! i ! j)"
  have r: "rate_df A pf t ! i ! j =
      (if fl_gt ?p (Fin 0) then fl_round A 1 (fl_mul A (fl_div A ?c ?p) (Fin 100000)) else Fin 0)"
    using io lo assms(3) fl_gt_notna[of ?p]
    by (auto simp: rate_df_def occurrence_rate_rows)
  have a: "arrest_df A pf t ! i ! j =
      (if fl_gt ?c (Fin 0) then fl_round A 1 (fl_mul A (fl_div A ?a ?c) (Fin 100)) else Fin 0)"
    using io ia lo la assms(3)
    by (auto simp: arrest_df_def arrest_rate_rows)
  have na: "isna (h_pop t ! j) \<Longrightarrow> ?p = Fin 0"
    by (simp add: str_to_float_def)
  show ?thesis
    unfolding Let_def r a using na
    by (auto simp: fl_gt_def)
qed

theorem derived_rates_witness:
  "heat_table_ok sample_heat
   \<and> rate_df exact_ops (\<lambda>s. None) sample_heat ! 0 = [Fin (3 / 2), Fin 0]
   \<and> arrest_df exact_ops (\<lambda>s. None) sample_heat ! 0 = [Fin (333 / 10), Fin 100]"
proof -
  have ok: "heat_table_ok sample_heat"
    by (simp add: heat_table_ok_def sample_heat_def list_all_iff)
  have n: "length (h_pop sample_heat) = 2" by (simp add: sample_heat_def)
  have lr: "length (rate_df exact_ops (\<lambda>s. None) sample_heat ! 0) = 2"
    by (simp add: rate_df_def sample_heat_def occurrence_rate_rows)
  have la: "length (arrest_df exact_ops (\<lambda>s. None) sample_heat ! 0) = 2"
    by (simp add: arrest_df_def sample_heat_def arrest_rate_rows)
  have f: "round_to 1 (3 / 200000 * 100000) = 3 / 2" "round_to 1 (1 / 3 * 100) = 333 / 10"
    "round_to 1 (5 / 5 * 100) = 100"
    by (simp_all add: round_to_def rint_def Let_def)
  have c: "str_to_float (\<lambda>s. None) (h_pop sample_heat ! 0) = Fin 200000"
    "str_to_float (\<lambda>s. None) (h_pop sample_heat ! 1) = Fin 0"
    "str_to_float (\<lambda>s. None) (h_occur sample_heat ! 0 ! 0) = Fin 3"
    "str_to_float (\<lambda>s. None) (h_occur sample_heat ! 0 ! 1) = Fin 5"
    "str_to_float (\<lambda>s. None) (h_arrest sample_heat ! 0 ! 0) = Fin 1"
    "str_to_float (\<lambda>s. None) (h_arrest sample_heat ! 0 ! 1) = Fin 5"
    by (simp_all add: sample_heat_def str_to_float_def isna_def)
  from derived_rates[OF ok, of 0 0 "\<lambda>s. None" exact_ops] n c f
  have r0: "rate_df exact_ops (\<lambda>s. None) sample_heat ! 0 ! 0 = Fin (3 / 2)"
    and a0: "arrest_df exact_ops (\<lambda>s. None) sample_heat ! 0 ! 0 = Fin (333 / 10)"
    by (simp_all add: Let_def fl_gt_def fl_round_def exact_ops_def)
  from derived_rates[OF ok, of 0 1 "\<lambda>s. None" exact_ops] n c f
  have r1: "rate_df exact_ops (\<lambda>s. None) sample_heat ! 0 ! 1 = Fin 0"
    and a1: "arrest_df exact_ops (\<lambda>s. None) sample_heat ! 0 ! 1 = Fin 100"
    by (simp_all add: Let_def fl_gt_def fl_round_def exact_ops_def)
  have "rate_df exact_ops (\<lambda>s. None) sample_heat ! 0 = [Fin (3 / 2), Fin 0]"
    using lr r0 r1 by (intro nth_equalityI) (auto simp: less_Suc_eq numeral_2_eq_2)
  moreover have "arrest_df exact_ops (\<lambda>s. None) sample_heat ! 0 = [Fin (333 / 10), Fin 100]"
    using la a0 a1 by (intro nth_equalityI) (auto simp: less_Suc_eq numeral_2_eq_2)
  ultimately show ?thesis using ok by simp
qed










text \<open>
  C7 (as amended). A column whose values all lie between 0 and 1, are unchanged by
  dividing by 1 and by rounding to four decimals, and include the value 1, has the
  maximum 1 and is returned unchanged by the normalization.
\<close>

theorem normalize_column_fixed:
  assumes "list_all (\<lambda>y. 0 \<le> y \<and> y \<le> 1 \<and> dbl_div A y 1 = Fin y
                          \<and> dbl_round A 4 y = Fin y) ys"
    and "1 \<in> set ys"
  shows "column_max (map Fin ys) = Fin 1 \<and> normalize_column A (map Fin ys) = map Fin ys"
proof -
  from assms(1) have y: "0 \<le> y \<and> y \<le> 1 \<and> dbl_div A y 1 = Fin y \<and> dbl_round A 4 y = Fin y"
    if "y \<in> set ys" for y
    using that by (simp add: list_all_iff)
  have c1: "clamp_negative (map Fin ys) = map Fin ys"
  proof -
    have "map (\<lambda>v. if fl_lt v (Fin 0) then Fin 0 else v) (map Fin ys) = map Fin ys"
      unfolding map_map
    proof (rule map_cong[OF refl])
      fix q assume "q \<in> set ys"
      from y[OF this] show "((\<lambda>v. if fl_lt v (Fin 0) then Fin 0 else v) \<circ> Fin) q = Fin q"
        by simp
    qed
    then show ?thesis by (simp only: clamp_negative_def)
  qed
  have ne: "ys \<noteq> []" using assms(2) by auto
  have f: "filter notna (map Fin qs) = map Fin qs" for qs
    by (induction qs) (simp_all add: notna_def)
  have fm: "fold fl_max (map Fin zs) (Fin z) = Fin (fold max zs z)" for zs z
    by (induction zs arbitrary: z) (simp_all add: fl_max_def max_def)
  have M1: "Max (set ys) = 1"
    using assms(2) y by (intro Max_eqI) auto
  have cm: "column_max (map Fin ys) = Fin 1"
  proof -
    from ne obtain z zs where e: "ys = z # zs" by (cases ys) auto
    have "column_max (map Fin (z # zs)) = Fin (fold max zs z)"
      unfolding column_max_def f by (simp add: fm)
    also have "fold max zs z = Max (set (z # zs))" by (rule Max.set_eq_fold[symmetric])
    finally show ?thesis using M1 by (simp only: e)
  qed
  have "normalize_column A (map Fin ys) =
      clamp_above_one (clamp_negative (map (\<lambda>v. fl_round A 4 (fl_div A v (Fin 1))) (map Fin ys)))"
    by (simp add: normalize_column_def c1 cm Let_def fl_gt_def del: fl_div.simps)
  also have "map (\<lambda>v. fl_round A 4 (fl_div A v (Fin 1))) (map Fin ys) = map Fin ys"
    unfolding map_map
  proof (rule map_cong[OF refl])
    fix q assume "q \<in> set ys"
    from y[OF this]
    show "((\<lambda>v. fl_round A 4 (fl_div A v (Fin 1))) \<circ> Fin) q = Fin q"
      by (simp add: fl_round_def)
  qed
  also have "clamp_above_one (clamp_negative (map Fin ys)) = map Fin ys"
  proof -
    have "map (\<lambda>v. if fl_gt v (Fin 1) then Fin 1 else v) (map Fin ys) = map Fin ys"
      unfolding map_map
    proof (rule map_cong[OF refl])
      fix q assume "q \<in> set ys"
      from y[OF this] show "((\<lambda>v. if fl_gt v (Fin 1) then Fin 1 else v) \<circ> Fin) q = Fin q"
        by (simp add: fl_gt_def)
    qed
    then show ?thesis by (simp only: c1 clamp_above_one_def)
  qed
  finally show ?thesis using cm by simp
qed

text \<open>
  An instance of C7 (as amended): the column 0.3333, 1.
\<close>

theorem normalize_column_fixed_witness:
  "column_max [Fin (3333 / 10000), Fin 1] = Fin 1
   \<and> normalize_column exact_ops [Fin (3333 / 10000), Fin 1] = [Fin (3333 / 10000), Fin 1]"
proof -
  have r: "round_to 4 (3333 / 10000) = 3333 / 10000" "round_to 4 1 = 1"
    by (simp_all add: round_to_def rint_def Let_def)
  have l: "list_all (\<lambda>y. 0 \<le> y \<and> y \<le> 1 \<and> dbl_div exact_ops y 1 = Fin y
                          \<and> dbl_round exact_ops 4 y = Fin y) [3333 / 10000, 1]"
    by (simp add: exact_ops_def r)
  have i: "(1::real) \<in> set [3333 / 10000, 1]" by simp
  from normalize_column_fixed[OF l i] show ?thesis by simp
qed

text \<open>
  C7 (the claim as stated fails). The column 1, -0.5 has the maximum 1 and is changed (its
  negative value becomes 0), and so is the column 1, 0.33333 (its second value is rounded
  to 0.3333).
\<close>

theorem normalize_column_max_one_changed:
  "column_max [Fin 1, Fin (- 1 / 2)] = Fin 1
   \<and> (\<forall>A. normalize_column A [Fin 1, Fin (- 1 / 2)] \<noteq> [Fin 1, Fin (- 1 / 2)])
   \<and> column_max [Fin 1, Fin (33333 / 100000)] = Fin 1
   \<and> normalize_column exact_ops [Fin 1, Fin (33333 / 100000)] = [Fin 1, Fin (3333 / 10000)]"
proof -
  have 1: "column_max [Fin 1, Fin (- 1 / 2)] = Fin 1"
    "column_max [Fin 1, Fin (33333 / 100000)] = Fin 1"
    by (simp_all add: column_max_def notna_def fl_max_def)
  have 2: "normalize_column A [Fin 1, Fin (- 1 / 2)] \<noteq> [Fin 1, Fin (- 1 / 2)]" for A
    by (auto simp: normalize_column_def clamp_negative_def clamp_above_one_def column_max_def
        notna_def fl_max_def fl_gt_def Let_def split: if_splits)
  have r: "round_to 4 (33333 / 100000) = 3333 / 10000" "round_to 4 1 = 1"
    by (simp_all add: round_to_def rint_def Let_def)
  have 3: "normalize_column exact_ops [Fin 1, Fin (33333 / 100000)] = [Fin 1, Fin (3333 / 10000)]"
    by (simp add: normalize_column_def clamp_negative_def clamp_above_one_def column_max_def
        notna_def fl_max_def fl_gt_def Let_def fl_round_def exact_ops_def r)
  show ?thesis using 1 2 3 by blast
qed

section \<open>Properties of the duplicate-district aggregation\<close>

lemma digit_val_ascii: "48 \<le> c \<Longrightarrow> c \<le> 57 \<Longrightarrow> digit_val c = Some (c - 48)"
  by (simp add: digit_val_def nd_zeros_def)

lemma digits_of_digits: "c \<in> set (digits_of n) \<Longrightarrow> 48 \<le> c \<and> c \<le> 57"
proof (induction n rule: digits_of.induct)
  case (1 n)
  show ?case
  proof (cases "n < 10")
    case True
    with "1.prems" show ?thesis by (simp add: digits_of.simps[of n])
  next
    case False
    with "1.prems" "1.IH" show ?thesis
      by (auto simp: digits_of.simps[of n])
  qed
qed

lemma digits_of_ne: "digits_of n \<noteq> []"
  by (subst digits_of.simps) simp

lemma parse_digits_digits_of:
  "parse_digits (digits_of n @ es) acc =
     parse_digits es (acc * 10 ^ length (digits_of n) + n)"
proof (induction n arbitrary: es acc rule: digits_of.induct)
  case (1 n)
  show ?case
  proof (cases "n < 10")
    case True
    then show ?thesis
      by (simp add: digits_of.simps[of n] digit_val_ascii)
  next
    case False
    have "parse_digits (digits_of n @ es) acc =
        parse_digits (digits_of (n div 10) @ ([48 + n mod 10] @ es)) acc"
      using False by (simp add: digits_of.simps[of n])
    also have "\<dots> = parse_digits ([48 + n mod 10] @ es)
        (acc * 10 ^ length (digits_of (n div 10)) + n div 10)"
      using False by (rule "1.IH")
    also have "\<dots> = parse_digits es
        ((acc * 10 ^ length (digits_of (n div 10)) + n div 10) * 10 + n mod 10)"
    proof -
      have "n mod 10 < 10" by simp
      then have "48 + n mod 10 \<noteq> 95" and "digit_val (48 + n mod 10) = Some (n mod 10)"
        by (simp_all add: digit_val_ascii)
      then show ?thesis by simp
    qed
    also have "(acc * 10 ^ length (digits_of (n div 10)) + n div 10) * 10 + n mod 10
        = acc * 10 ^ length (digits_of n) + n"
      using False by (simp add: digits_of.simps[of n] algebra_simps)
    finally show ?thesis .
  qed
qed

lemma parse_nat_digits_of: "parse_nat (digits_of n) = Some n"
proof -
  obtain c cs where e: "digits_of n = c # cs"
    using digits_of_ne[of n] by (cases "digits_of n") auto
  have c: "48 \<le> c \<and> c \<le> 57" using digits_of_digits[of c n] e by simp
  have "parse_nat (digits_of n) = parse_digits (digits_of n @ []) 0"
    using c by (simp add: e parse_nat_def digit_val_ascii)
  also have "\<dots> = Some n" by (simp only: parse_digits_digits_of) simp
  finally show ?thesis .
qed

lemma remove_comma_group3: "44 \<notin> set ds \<Longrightarrow> remove_char 44 (group3 ds) = ds"
proof (induction ds rule: group3.induct)
  case (1 ds)
  show ?case
  proof (cases "length ds \<le> 3")
    case True
    with "1.prems" show ?thesis
      by (auto simp: group3.simps[of ds] remove_char_def filter_id_conv)
  next
    case False
    have t: "44 \<notin> set (take (length ds - 3) ds)" and d: "44 \<notin> set (drop (length ds - 3) ds)"
      using "1.prems" by (auto dest: in_set_takeD in_set_dropD)
    have "remove_char 44 (group3 ds) =
        remove_char 44 (group3 (take (length ds - 3) ds)) @ remove_char 44 (drop (length ds - 3) ds)"
      using False by (simp add: group3.simps[of ds] remove_char_def)
    also have "remove_char 44 (group3 (take (length ds - 3) ds)) = take (length ds - 3) ds"
      using False t by (rule "1.IH")
    also have "remove_char 44 (drop (length ds - 3) ds) = drop (length ds - 3) ds"
      using d by (auto simp: remove_char_def filter_id_conv)
    finally show ?thesis by simp
  qed
qed

lemma strip_by_id: "(\<And>c. c \<in> set s \<Longrightarrow> \<not> P c) \<Longrightarrow> strip_by P s = s"
proof -
  assume a: "\<And>c. c \<in> set s \<Longrightarrow> \<not> P c"
  have "dropWhile P s = s" using a by (cases s) auto
  moreover have "dropWhile P (rev s) = rev s" using a by (cases "rev s") (auto dest: arg_cong[where f=set])
  ultimately show ?thesis by (simp add: strip_by_def)
qed

lemma digit_not_space: "48 \<le> c \<and> c \<le> 57 \<Longrightarrow> \<not> is_space c"
  by (simp add: is_space_def)

lemma digit_not_int_space: "48 \<le> c \<and> c \<le> 57 \<Longrightarrow> \<not> int_space c"
  by (simp add: int_space_def is_space_def)

lemma remove_comma_format:
  "remove_char 44 (format_commas n) =
     (if n < 0 then 45 # digits_of (nat (- n)) else digits_of (nat n))"
proof -
  have "44 \<notin> set (digits_of m)" for m using digits_of_digits[of 44 m] by auto
  then have "remove_char 44 (group3 (digits_of m)) = digits_of m" for m
    by (rule remove_comma_group3)
  moreover have "remove_char 44 (45 # s) = 45 # remove_char 44 s" for s
    by (simp add: remove_char_def)
  ultimately show ?thesis by (simp add: format_commas_def)
qed

lemma py_int_digits: "py_int (digits_of m) = Some (int m)"
proof -
  obtain c cs where e: "digits_of m = c # cs"
    using digits_of_ne[of m] by (cases "digits_of m") auto
  have c: "48 \<le> c \<and> c \<le> 57" using digits_of_digits[of c m] e by simp
  have "strip_by int_space (digits_of m) = digits_of m"
    using digits_of_digits[of _ m] by (intro strip_by_id digit_not_int_space)
  then show ?thesis
    using c parse_nat_digits_of[of m] by (simp add: py_int_def e)
qed

lemma py_int_minus_digits: "py_int (45 # digits_of m) = Some (- int m)"
proof -
  have "\<not> int_space c" if "c \<in> set (45 # digits_of m)" for c
    using that digits_of_digits[of c m] by (auto simp: int_space_def is_space_def)
  then have "strip_by int_space (45 # digits_of m) = 45 # digits_of m"
    by (rule strip_by_id)
  then show ?thesis
    by (simp add: py_int_def parse_nat_digits_of)
qed

lemma cell_int_format: "cell_int (TextCell (format_commas n)) = n"
proof -
  let ?s = "remove_char 44 (format_commas n)"
  have ns: "\<not> is_space c" if "c \<in> set ?s" for c
    using that digits_of_digits[of c] by (auto simp: remove_comma_format is_space_def split: if_splits)
  have "strip ?s = ?s" unfolding strip_def using ns by (rule strip_by_id)
  then show ?thesis
    by (simp add: cell_int_def isna_def remove_comma_format py_int_digits py_int_minus_digits)
qed

lemma foldl_cell_int:
  "foldl (\<lambda>total val. total + cell_int val) a series = a + sum_list (map cell_int series)"
  by (induction series arbitrary: a) simp_all

lemma cell_int_sum:
  "cell_int (sum_string_numbers series) = sum_list (map cell_int series)"
  by (simp add: sum_string_numbers_def cell_int_format foldl_cell_int)

lemma find_filter_hd: "filter P xs = x # rest \<Longrightarrow> find P xs = Some x"
  by (induction xs) (auto split: if_splits)

lemma numeric_cols_wf:
  "\<forall>r\<in>set df. length (counts r) = n \<Longrightarrow> df \<noteq> [] \<Longrightarrow> numeric_cols df = n"
  by (cases df) (simp_all add: numeric_cols_def)

lemma merge_duplicate_gu_keys:
  "map gu (merge_duplicate_gu df) = sort (remdups (map gu df))"
  by (simp add: merge_duplicate_gu_def o_def Let_def)

lemma sum_string_numbers_sum:
  "sum_string_numbers series = TextCell (format_commas (sum_list (map cell_int series)))"
  by (simp add: sum_string_numbers_def foldl_cell_int)

text \<open>
  C8 (as amended). The aggregation gives one row for each district name of the input,
  the names in sorted order and without repetition. In each row every numeric column
  holds the comma-formatted text of the sum of what the cells of the group count for,
  and the station name is that of the first row of the group in input order. An integer
  cell counts for its value and the comma-formatted text of an integer for that integer;
  a missing cell, a float cell and a text that \<open>int\<close> rejects once its commas and the
  whitespace around it are removed count for 0.
\<close>

theorem merge_duplicate_gu_groups:
  assumes wf: "\<forall>r\<in>set df. length (counts r) = n"
  shows "distinct (map gu (merge_duplicate_gu df))
       \<and> set (map gu (merge_duplicate_gu df)) = set (map gu df)
       \<and> sorted (map gu (merge_duplicate_gu df))
       \<and> (\<forall>out\<in>set (merge_duplicate_gu df).
             length (counts out) = n
           \<and> (\<forall>j<n. counts out ! j =
                  TextCell (format_commas
                    (sum_list (map (\<lambda>r. cell_int (counts r ! j))
                                 (filter (\<lambda>r. gu r = gu out) df)))))
           \<and> (\<exists>r0. find (\<lambda>r. gu r = gu out) df = Some r0 \<and> station out = station r0))
       \<and> (\<forall>m. cell_int (IntCell m) = m \<and> cell_int (TextCell (format_commas m)) = m)
       \<and> (\<forall>x. cell_int (FloatCell x) = 0)
       \<and> (\<forall>s. py_int (strip (remove_char 44 s)) = None \<longrightarrow> cell_int (TextCell s) = 0)"
proof -
  have k: "distinct (map gu (merge_duplicate_gu df))"
    "set (map gu (merge_duplicate_gu df)) = set (map gu df)"
    "sorted (map gu (merge_duplicate_gu df))"
    by (simp_all add: merge_duplicate_gu_keys)
  have rows: "length (counts out) = n
           \<and> (\<forall>j<n. counts out ! j =
                  TextCell (format_commas
                    (sum_list (map (\<lambda>r. cell_int (counts r ! j))
                                 (filter (\<lambda>r. gu r = gu out) df)))))
           \<and> (\<exists>r0. find (\<lambda>r. gu r = gu out) df = Some r0 \<and> station out = station r0)"
    if "out \<in> set (merge_duplicate_gu df)" for out
  proof -
    let ?grp = "\<lambda>k. filter (\<lambda>r. gu r = k) df"
    from that obtain k where kin: "k \<in> set (map gu df)"
      and out: "out = \<lparr>station = first_value (map station (?grp k)),
                   counts = map (\<lambda>j. sum_string_numbers (map (\<lambda>r. counts r ! j) (?grp k)))
                              [0..<numeric_cols df],
                   gu = k\<rparr>"
      by (auto simp: merge_duplicate_gu_def Let_def)
    have g: "gu out = k" by (simp add: out)
    from kin have ne: "df \<noteq> []" by auto
    have nc: "numeric_cols df = n" using wf ne by (rule numeric_cols_wf)
    have len: "length (counts out) = n" by (simp add: out nc)
    have sums: "counts out ! j =
        TextCell (format_commas (sum_list (map (\<lambda>r. cell_int (counts r ! j)) (?grp (gu out)))))"
      if "j < n" for j
      using that by (simp add: out nc sum_string_numbers_sum o_def)
    from kin have "?grp k \<noteq> []" by (auto simp: filter_empty_conv)
    then obtain r0 rest where f: "?grp k = r0 # rest" by (cases "?grp k") auto
    then have "find (\<lambda>r. gu r = k) df = Some r0" by (rule find_filter_hd)
    moreover have "station out = station r0" by (simp add: out f first_value_def)
    ultimately have "\<exists>r0. find (\<lambda>r. gu r = gu out) df = Some r0 \<and> station out = station r0"
      using g by simp
    with len sums show ?thesis by blast
  qed
  have c1: "cell_int (IntCell m) = m \<and> cell_int (TextCell (format_commas m)) = m" for m
    by (simp add: cell_int_format) (simp add: cell_int_def isna_def)
  have c2: "cell_int (FloatCell x) = 0" for x
    by (simp add: cell_int_def)
  have c3: "py_int (strip (remove_char 44 s)) = None \<longrightarrow> cell_int (TextCell s) = 0" for s
    by (simp add: cell_int_def)
  show ?thesis using k rows c1 c2 c3 by blast
qed

text \<open>
  An instance of C8 (as amended): the occurrences 3 and 5 of two rows of one district
  are aggregated to 8, and the clearances "1,234" and "766" to "2,000".
\<close>

theorem merge_duplicate_gu_groups_witness:
  "map gu (merge_duplicate_gu gangnam_rows) = [gangnam_gu]
   \<and> map station (merge_duplicate_gu gangnam_rows) = [[44053, 45224, 49436]]
   \<and> map counts (merge_duplicate_gu gangnam_rows)
       = [[TextCell (ustr ''8''), TextCell (ustr ''2,000'')]]"
proof -
  have wf: "\<forall>r\<in>set gangnam_rows. length (counts r) = 2"
    by (simp add: gangnam_rows_def)
  have c: "cell_int (TextCell (ustr ''3'')) = 3" "cell_int (TextCell (ustr ''5'')) = 5"
    "cell_int (TextCell (ustr ''1,234'')) = 1234" "cell_int (TextCell (ustr ''766'')) = 766"
    by (simp_all add: cell_int_def isna_def py_int_def parse_nat_def digit_val_ascii
      strip_def strip_by_def is_space_def int_space_def remove_char_def ustr_def)
  have f: "format_commas 8 = ustr ''8''" "format_commas 2000 = ustr ''2,000''"
    by (simp_all add: format_commas_def group3.simps digits_of.simps ustr_def)
  have g: "map gu (merge_duplicate_gu gangnam_rows) = [gangnam_gu]"
    by (simp add: merge_duplicate_gu_keys gangnam_rows_def)
  then obtain out where m: "merge_duplicate_gu gangnam_rows = [out]" and go: "gu out = gangnam_gu"
    by (cases "merge_duplicate_gu gangnam_rows") auto
  note th = merge_duplicate_gu_groups[OF wf]
  have o: "out \<in> set (merge_duplicate_gu gangnam_rows)" by (simp add: m)
  from th o have l: "length (counts out) = 2" by blast
  from th o have a: "j < 2 \<Longrightarrow> counts out ! j =
       TextCell (format_commas (sum_list (map (\<lambda>r. cell_int (counts r ! j))
          (filter (\<lambda>r. gu r = gu out) gangnam_rows))))" for j
    by blast
  have "counts out ! 0 = TextCell (format_commas (sum_list (map (\<lambda>r. cell_int (counts r ! 0))
          (filter (\<lambda>r. gu r = gu out) gangnam_rows))))"
    and "counts out ! 1 = TextCell (format_commas (sum_list (map (\<lambda>r. cell_int (counts r ! 1))
          (filter (\<lambda>r. gu r = gu out) gangnam_rows))))"
    by (rule a, simp)+
  then have e: "counts out ! 0 = TextCell (ustr ''8'')" "counts out ! 1 = TextCell (ustr ''2,000'')"
    by (simp_all add: go gangnam_rows_def c f)
  have cs: "counts out = [TextCell (ustr ''8''), TextCell (ustr ''2,000'')]"
    using l e by (intro nth_equalityI) (auto simp: less_Suc_eq numeral_2_eq_2)
  from th o obtain r0 where "find (\<lambda>r. gu r = gu out) gangnam_rows = Some r0"
    "station out = station r0" by blast
  then have s: "station out = [44053, 45224, 49436]"
    by (auto simp: go gangnam_rows_def)
  show ?thesis using g cs s by (simp add: m)
qed

text \<open>
  C8 (the claim as stated fails). Two rows of one district whose occurrence column is a
  float column with the counts 3.0 and 5.0 are aggregated to "0", not to 8: the text of
  a float has a decimal point, which \<open>int\<close> rejects. The text "3.0" counts for 0 as
  well, beside the full-width text of 12, which counts for 12.
\<close>

theorem merge_duplicate_gu_float_cells:
  "merge_duplicate_gu float_rows =
     [\<lparr>station = [44053, 45224, 49436],
       counts = [TextCell (ustr ''0''), TextCell (ustr ''12'')], gu = gangnam_gu\<rparr>]
   \<and> TextCell (ustr ''0'') \<noteq> TextCell (ustr ''8'')
   \<and> format_commas (3 + 5) = ustr ''8''"
proof -
  have c: "cell_int (FloatCell (Fin 3)) = 0" "cell_int (FloatCell (Fin 5)) = 0"
    "cell_int (TextCell [65297, 65298]) = 12" "cell_int (TextCell (ustr ''3.0'')) = 0"
    by (simp_all add: cell_int_def isna_def py_int_def parse_nat_def digit_val_def nd_zeros_def
      strip_def strip_by_def is_space_def int_space_def remove_char_def ustr_def)
  have f: "format_commas 0 = ustr ''0''" "format_commas 12 = ustr ''12''"
    "format_commas (3 + 5) = ustr ''8''"
    by (simp_all add: format_commas_def group3.simps digits_of.simps ustr_def)
  have k: "sort (remdups (map gu float_rows)) = [gangnam_gu]"
    by (simp add: float_rows_def)
  have m: "merge_duplicate_gu float_rows =
     [\<lparr>station = [44053, 45224, 49436],
       counts = [TextCell (ustr ''0''), TextCell (ustr ''12'')], gu = gangnam_gu\<rparr>]"
    unfolding merge_duplicate_gu_def k
    by (simp add: float_rows_def numeric_cols_def first_value_def sum_string_numbers_sum c f
        upt_rec Let_def)
  have n: "TextCell (ustr ''0'') \<noteq> TextCell (ustr ''8'')" by (simp add: ustr_def)
  show ?thesis using m n f(3) by blast
qed

end
